theory Spec2Isabelle
  imports Main "HOL-Library.Char_ord" "HOL-Library.List_Lexorder"
begin

section \<open>Go strings and the library routines the generator calls\<close>

text \<open>
  A Go string is a sequence of bytes, and so is a HOL \<open>string\<close>. The routines of this
  section are the parts of the packages \<open>strings\<close> and \<open>fmt\<close> that \<open>main.go\<close> calls.
\<close>

abbreviation NL :: string where "NL \<equiv> [CHR 0x0A]"
abbreviation TAB :: string where "TAB \<equiv> [CHR 0x09]"
abbreviation DQ :: string where "DQ \<equiv> [CHR 0x22]"
abbreviation SQ :: string where "SQ \<equiv> [CHR 0x27]"

fun strings_Join :: "string list \<Rightarrow> string \<Rightarrow> string" where
  "strings_Join [] sep = []"
| "strings_Join [x] sep = x"
| "strings_Join (x # y # ys) sep = x @ sep @ strings_Join (y # ys) sep"

definition strings_HasSuffix :: "string \<Rightarrow> string \<Rightarrow> bool" where
  "strings_HasSuffix s suf =
     (length suf \<le> length s \<and> drop (length s - length suf) s = suf)"

definition strings_TrimSuffix :: "string \<Rightarrow> string \<Rightarrow> string" where
  "strings_TrimSuffix s suf =
     (if strings_HasSuffix s suf then take (length s - length suf) s else s)"

text \<open>
  \<open>strings.ToLower\<close> has a fast path for strings made of ASCII bytes only: every byte in
  \<open>'A'..'Z'\<close> is moved by \<open>'a' - 'A'\<close>. Any other string goes through
  \<open>strings.Map(unicode.ToLower, s)\<close>, which decodes UTF-8 and consults the Unicode tables;
  that path is the parameter \<open>um\<close>.
\<close>

definition isASCII :: "char \<Rightarrow> bool" where
  "isASCII c = ((of_char c :: nat) < 128)"

definition lowerByte :: "char \<Rightarrow> char" where
  "lowerByte c =
     (case map_of (zip ''ABCDEFGHIJKLMNOPQRSTUVWXYZ'' ''abcdefghijklmnopqrstuvwxyz'') c of
        Some l \<Rightarrow> l
      | None \<Rightarrow> c)"

definition strings_ToLower :: "(string \<Rightarrow> string) \<Rightarrow> string \<Rightarrow> string" where
  "strings_ToLower um s = (if list_all isASCII s then map lowerByte s else um s)"

subsection \<open>Decimal numerals\<close>

definition digit_char :: "nat \<Rightarrow> char" where
  "digit_char n = ''0123456789'' ! n"

fun dec_nat :: "nat \<Rightarrow> string" where
  "dec_nat n = (if n < 10 then [digit_char n] else dec_nat (n div 10) @ [digit_char (n mod 10)])"

declare dec_nat.simps [simp del]

definition dec_int :: "int \<Rightarrow> string" where
  "dec_int i = (if i < 0 then CHR ''-'' # dec_nat (nat (- i)) else dec_nat (nat i))"

subsection \<open>The fragment of \<open>fmt\<close> that the program uses\<close>

text \<open>
  The program formats strings and ints with the verbs \<open>%s\<close>, \<open>%d\<close> and \<open>%v\<close>, with and
  without an explicit argument index \<open>%[n]s\<close>. \<open>doPrintf\<close> walks the format once, as the
  loop of the same name in \<open>fmt\<close> does: \<open>n\<close> is the index of the next argument and \<open>re\<close>
  records that an explicit index was seen (then no \<open>EXTRA\<close> report is made). An error
  value is passed as its message. Directives that are not well formed get a \<open>%!\<close> marker;
  the program has none.
\<close>

datatype farg = S string | D int

fun type_value :: "farg \<Rightarrow> string" where
  "type_value (S s) = ''string='' @ s"
| "type_value (D i) = ''int='' @ dec_int i"

fun printArg :: "farg \<Rightarrow> char \<Rightarrow> string" where
  "printArg (S s) c =
     (if c = CHR ''s'' \<or> c = CHR ''v'' then s else ''%!'' @ [c] @ ''('' @ type_value (S s) @ '')'')"
| "printArg (D i) c =
     (if c = CHR ''d'' \<or> c = CHR ''v'' then dec_int i
      else ''%!'' @ [c] @ ''('' @ type_value (D i) @ '')'')"

definition digit_of :: "char \<Rightarrow> nat option" where
  "digit_of c = map_of (zip ''0123456789'' [0, 1, 2, 3, 4, 5, 6, 7, 8, 9]) c"

datatype pmode = Text | Verb bool | Index nat bool

fun doPrintf :: "pmode \<Rightarrow> nat \<Rightarrow> bool \<Rightarrow> farg list \<Rightarrow> string \<Rightarrow> string" where
  "doPrintf Text n re a [] =
     (if \<not> re \<and> n < length a
      then ''%!(EXTRA '' @ strings_Join (map type_value (drop n a)) '', '' @ '')'' else [])"
| "doPrintf Text n re a (c # cs) =
     (if c = CHR ''%'' then doPrintf (Verb True) n re a cs else c # doPrintf Text n re a cs)"
| "doPrintf (Verb ok) n re a [] = ''%!(NOVERB)''"
| "doPrintf (Verb ok) n re a (c # cs) =
     (if c = CHR ''['' then doPrintf (Index 0 True) n True a cs
      else if c = CHR ''%'' then CHR ''%'' # doPrintf Text n re a cs
      else if \<not> ok then ''%!'' @ [c] @ ''(BADINDEX)'' @ doPrintf Text n re a cs
      else if length a \<le> n then ''%!'' @ [c] @ ''(MISSING)'' @ doPrintf Text n re a cs
      else printArg (a ! n) c @ doPrintf Text (Suc n) re a cs)"
| "doPrintf (Index k ok) n re a [] = ''%!(NOVERB)''"
| "doPrintf (Index k ok) n re a (c # cs) =
     (if c = CHR '']''
      then (if ok \<and> 1 \<le> k \<and> k \<le> length a then doPrintf (Verb True) (k - 1) re a cs
            else doPrintf (Verb False) n re a cs)
      else (case digit_of c of
              Some d \<Rightarrow> doPrintf (Index (10 * k + d) ok) n re a cs
            | None \<Rightarrow> doPrintf (Index k False) n re a cs))"

definition Sprintf :: "string \<Rightarrow> farg list \<Rightarrow> string" where
  "Sprintf format a = doPrintf Text 0 False a format"


section \<open>The view of \<open>go/types\<close> that the generator reads\<close>

text \<open>
  \<open>pkg\<close> is a \<open>types.Package\<close> with its import path and its name. \<open>gotype\<close> is
  \<open>types.Type\<close> as it can stand in the signature of an interface method:
  \<^item> \<open>Basic\<close>: a predeclared type, \<open>any\<close> included;
  \<^item> \<open>Named\<close>: a defined type or an alias, with the package of its declaration (absent for
    the universe, as for \<open>error\<close>; the package \<open>unsafe\<close> for \<open>unsafe.Pointer\<close>) and its type
    arguments;
  \<^item> \<open>TypeParam\<close>: a type parameter of a generic interface, written by its name;
  \<^item> pointers, slices, arrays, maps, channels and function types;
  \<^item> \<open>Struct\<close>: a struct literal; a \<open>field\<close> has its name, whether it is embedded, its type
    and its tag in the form \<open>strconv.Quote\<close> gives it (empty when it has none);
  \<^item> \<open>InterfaceType\<close>: an interface literal with its explicit methods and its embedded
    types;
  \<^item> \<open>Union\<close>: a union of terms, each with or without a tilde.
  A \<open>var\<close> is a parameter or a result, with the name the source gave it (empty when it gave
  none). A \<open>func\<close> is a method: its name and its signature. The signature of an interface
  method has no type parameters of its own.
\<close>

datatype pkg = Pkg (pkg_Path: string) (pkg_Name: string)

datatype chandir = SendRecv | SendOnly | RecvOnly

datatype gotype =
    Basic string
  | Named "pkg option" string "gotype list"
  | TypeParam string
  | Pointer gotype
  | Slice gotype
  | Array nat gotype
  | Map gotype gotype
  | Chan chandir gotype
  | Sig signature
  | Struct "field list"
  | InterfaceType "func list" "gotype list"
  | Union "uterm list"
and signature = Signature (Params: "var list") (Results: "var list") (Variadic: bool)
and var = Var (vname: string) (vtype: gotype)
and field = Field string bool gotype string
and func = Func (fname: string) (ftype: signature)
and uterm = Term bool gotype

text \<open>
  \<open>types.TypeString\<close> and \<open>types.WriteSignature\<close>, after \<open>typestring.go\<close> of \<open>go/types\<close>:
  the qualifier \<open>qf\<close> gives the text written before the name of a type that has a package,
  followed by a dot unless it is empty. \<open>WriteSignature\<close> writes the names of parameters and
  results that have one. The fields of a struct and the methods and embedded types of an
  interface are separated by \<open>; \<close>, the terms of a union by \<open> | \<close>.
\<close>

definition packagePrefix :: "pkg option \<Rightarrow> (pkg \<Rightarrow> string) \<Rightarrow> string" where
  "packagePrefix po qf =
     (case po of
        None \<Rightarrow> []
      | Some pk \<Rightarrow> (let s = qf pk in if s \<noteq> [] then s @ ''.'' else s))"

fun isRecvOnlyChan :: "gotype \<Rightarrow> bool" where
  "isRecvOnlyChan (Chan d t) = (d = RecvOnly)"
| "isRecvOnlyChan t = False"

fun types_TypeString :: "(pkg \<Rightarrow> string) \<Rightarrow> gotype \<Rightarrow> string"
  and typeList :: "(pkg \<Rightarrow> string) \<Rightarrow> gotype list \<Rightarrow> string"
  and types_WriteSignature :: "(pkg \<Rightarrow> string) \<Rightarrow> signature \<Rightarrow> string"
  and writeResults :: "(pkg \<Rightarrow> string) \<Rightarrow> var list \<Rightarrow> string"
  and tuple :: "(pkg \<Rightarrow> string) \<Rightarrow> bool \<Rightarrow> var list \<Rightarrow> string"
  and writeVar :: "(pkg \<Rightarrow> string) \<Rightarrow> bool \<Rightarrow> var \<Rightarrow> string"
  and writeDots :: "(pkg \<Rightarrow> string) \<Rightarrow> gotype \<Rightarrow> string"
where
  "types_TypeString qf (Basic n) = n"
| "types_TypeString qf (Named po n targs) =
     packagePrefix po qf @ n @ (if targs = [] then [] else ''['' @ typeList qf targs @ '']'')"
| "types_TypeString qf (TypeParam n) = n"
| "types_TypeString qf (Pointer t) = ''*'' @ types_TypeString qf t"
| "types_TypeString qf (Slice t) = ''[]'' @ types_TypeString qf t"
| "types_TypeString qf (Array n t) = ''['' @ dec_nat n @ '']'' @ types_TypeString qf t"
| "types_TypeString qf (Map k v) =
     ''map['' @ types_TypeString qf k @ '']'' @ types_TypeString qf v"
| "types_TypeString qf (Chan d t) =
     (case d of
        SendRecv \<Rightarrow>
          ''chan '' @ (if isRecvOnlyChan t then ''('' @ types_TypeString qf t @ '')''
                      else types_TypeString qf t)
      | SendOnly \<Rightarrow> ''chan<- '' @ types_TypeString qf t
      | RecvOnly \<Rightarrow> ''<-chan '' @ types_TypeString qf t)"
| "types_TypeString qf (Sig sg) = ''func'' @ types_WriteSignature qf sg"
| "types_TypeString qf (Struct fs) =
     ''struct{'' @
     strings_Join
       (map (\<lambda>f. case f of Field n embedded t tag \<Rightarrow>
               (if embedded then [] else n @ '' '') @ types_TypeString qf t @
               (if tag \<noteq> [] then '' '' @ tag else [])) fs) ''; '' @
     ''}''"
| "types_TypeString qf (InterfaceType ms es) =
     ''interface{'' @
     strings_Join
       (map (\<lambda>m. case m of Func n sg \<Rightarrow> n @ types_WriteSignature qf sg) ms @
        map (types_TypeString qf) es) ''; '' @
     ''}''"
| "types_TypeString qf (Union ts) =
     (if ts = [] then ''<empty union>''
      else strings_Join
             (map (\<lambda>u. case u of Term tilde t \<Rightarrow>
                     (if tilde then ''~'' else []) @ types_TypeString qf t) ts) '' | '')"
| "typeList qf [] = []"
| "typeList qf [t] = types_TypeString qf t"
| "typeList qf (t # u # ts) = types_TypeString qf t @ '', '' @ typeList qf (u # ts)"
| "types_WriteSignature qf (Signature ps rs variadic) =
     ''('' @ tuple qf variadic ps @ '')'' @ writeResults qf rs"
| "writeResults qf [] = []"
| "writeResults qf [Var n t] =
     '' '' @ (if n = [] then types_TypeString qf t
              else ''('' @ n @ '' '' @ types_TypeString qf t @ '')'')"
| "writeResults qf (r # r' # rs) = '' ('' @ tuple qf False (r # r' # rs) @ '')''"
| "tuple qf variadic [] = []"
| "tuple qf variadic [v] = writeVar qf variadic v"
| "tuple qf variadic (v # w # vs) = writeVar qf False v @ '', '' @ tuple qf variadic (w # vs)"
| "writeVar qf dots (Var n t) =
     (if n \<noteq> [] then n @ '' '' else []) @
     (if dots then writeDots qf t else types_TypeString qf t)"
| "writeDots qf (Slice e) = ''...'' @ types_TypeString qf e"
| "writeDots qf t = types_TypeString qf t @ ''...''"

text \<open>
  A \<open>types.Interface\<close> as the generator sees it: \<open>methods\<close> is the sequence
  \<open>Method(0), ..., Method(NumMethods() - 1)\<close>, and \<open>restricted\<close> says that the type set of
  the interface is restricted by type terms or by \<open>comparable\<close> (a constraint interface
  such as \<open>interface{ ~int }\<close>). \<open>Empty()\<close> reports whether the interface is the empty
  interface, that is, whether its type set is all types: it has no method and no
  restriction.
\<close>

record interface =
  methods :: "func list"
  restricted :: bool

definition NumMethods :: "interface \<Rightarrow> nat" where
  "NumMethods t = length (methods t)"

definition Empty :: "interface \<Rightarrow> bool" where
  "Empty t = (methods t = [] \<and> \<not> restricted t)"

text \<open>
  \<open>go/types\<close> keeps the methods of an interface sorted: \<open>Method(i)\<close> is documented as
  ``the methods are ordered by their unique Id''. The id of an exported method is its
  name; the id of any other is the path of its package (\<open>_\<close> when it has none), a dot and
  its name. Ids are compared as Go compares strings, byte by byte. \<open>token.IsExported\<close>
  looks at the first letter: for an ASCII byte it is exported when in \<open>'A'..'Z'\<close>, and for
  a letter beyond ASCII the Unicode tables decide, which is the parameter \<open>ux\<close>.
  \<open>interfaceOf\<close> is the \<open>types.Interface\<close> of an interface type that declares, in the
  package with path \<open>path\<close>, the methods \<open>declared\<close> in that order in the source, and
  embeds no other interface.
\<close>

definition token_IsExported :: "(string \<Rightarrow> bool) \<Rightarrow> string \<Rightarrow> bool" where
  "token_IsExported ux name =
     (case name of
        [] \<Rightarrow> False
      | c # cs \<Rightarrow> if isASCII c then c \<in> set ''ABCDEFGHIJKLMNOPQRSTUVWXYZ'' else ux name)"

definition types_Id :: "(string \<Rightarrow> bool) \<Rightarrow> string \<Rightarrow> string \<Rightarrow> string" where
  "types_Id ux path name =
     (if token_IsExported ux name then name
      else (if path \<noteq> [] then path else ''_'') @ ''.'' @ name)"

definition sortMethods :: "(string \<Rightarrow> bool) \<Rightarrow> string \<Rightarrow> func list \<Rightarrow> func list" where
  "sortMethods ux path ms = sort_key (\<lambda>m. types_Id ux path (fname m)) ms"

definition interfaceOf ::
  "(string \<Rightarrow> bool) \<Rightarrow> string \<Rightarrow> func list \<Rightarrow> bool \<Rightarrow> interface" where
  "interfaceOf ux path declared restr =
     \<lparr>methods = sortMethods ux path declared, restricted = restr\<rparr>"

text \<open>
  What \<open>obj.Type().Underlying()\<close> is for an object of the package scope: an interface, or
  anything else. A \<open>packages.Package\<close> carries its name, its path and the scope of its
  \<open>types.Package\<close>.
\<close>

datatype underlying = UInterface interface | UOther

record package =
  Name :: string
  PkgPath :: string
  Scope :: "string \<Rightarrow> underlying option"


section \<open>The generator of \<open>main.go\<close>\<close>

text \<open>
  Every way in which a run ends early is a value: the \<open>log.Fatalf\<close> and
  \<open>log.Printf; os.Exit(1)\<close> exits of \<open>main\<close> and \<open>init\<close>, and the run-time panic of the
  slice expression \<open>g.targetName[0:1]\<close>.
\<close>

datatype error =
    ConfigError
  | OpenError string string
  | LoadError string
  | AmbiguousUnit nat
  | NotFound string
  | NotAContract string
  | EmptyContract
  | SliceBoundsPanic
  | StartError string
  | FormatError string string
  | CloseError string

fun diagnostic :: "error \<Rightarrow> string" where
  "diagnostic ConfigError = Sprintf ''no type name supplied'' []"
| "diagnostic (OpenError outFileName err) =
     Sprintf ''Couldn't open output file %s - %v'' [S outFileName, S err]"
| "diagnostic (LoadError err) = Sprintf ''Failed to load packages - %v'' [S err]"
| "diagnostic (AmbiguousUnit n) =
     Sprintf ''Loaded package length is not 1, but %d'' [D (int n)]"
| "diagnostic (NotFound tgt) =
     Sprintf (''Couldn't find target object '' @ SQ @ ''%s'' @ SQ @ '' in source file'') [S tgt]"
| "diagnostic (NotAContract tgt) =
     Sprintf (''Provided target object '' @ SQ @ ''%s'' @ SQ @ '' is not an interface'') [S tgt]"
| "diagnostic EmptyContract =
     Sprintf ''Trying to generate middlewarer for an empty interface'' []"
| "diagnostic SliceBoundsPanic =
     ''panic: runtime error: slice bounds out of range [:1] with length 0''"
| "diagnostic (StartError err) = Sprintf ''Failed to start format command - %v'' [S err]"
| "diagnostic (FormatError err errOut) =
     Sprintf (''Command to format code failed - %v'' @ NL @ ''Stderr: %s'' @ NL) [S err, S errOut]"
| "diagnostic (CloseError err) = Sprintf ''Failed to close output file - %v'' [S err]"

fun exitStatus :: "error \<Rightarrow> nat" where
  "exitStatus SliceBoundsPanic = 2"
| "exitStatus e = 1"

text \<open>
  The \<open>Generator\<close> struct. The field \<open>p\<close> of the source is \<open>gp\<close> here; the four
  buffers are the bytes written to them so far.
\<close>

record generator =
  gp :: package
  target :: interface
  targetName :: string
  targetFirstLetter :: string
  structName :: string
  wrapFunction :: string
  middlewareStruct :: string
  handlerFuncTypes :: string
  interfaceMethods :: string

text \<open>
  \<open>init\<close>: \<open>loadResult\<close> is what \<open>packages.Load\<close> returned for the current directory, an error
  or the list of packages.
\<close>

definition init :: "string + package list \<Rightarrow> string \<Rightarrow> error + generator" where
  "init loadResult tgt =
     (case loadResult of
        Inl err \<Rightarrow> Inl (LoadError err)
      | Inr packs \<Rightarrow>
          if length packs \<noteq> 1 then Inl (AmbiguousUnit (length packs))
          else
            (case Scope (packs ! 0) tgt of
               None \<Rightarrow> Inl (NotFound tgt)
             | Some UOther \<Rightarrow> Inl (NotAContract tgt)
             | Some (UInterface iFace) \<Rightarrow>
                 if Empty iFace then Inl EmptyContract
                 else Inr \<lparr>gp = packs ! 0, target = iFace, targetName = tgt,
                           targetFirstLetter = [], structName = [], wrapFunction = [],
                           middlewareStruct = [], handlerFuncTypes = [],
                           interfaceMethods = []\<rparr>))"

definition wrapFunctionFormat :: string where
  "wrapFunctionFormat =
     ''// Wrap%[1]s returns the passed %[1]s wrapped in the middleware defined in %[2]s'' @ NL @
     ''func Wrap%[1]s(toWrap %[1]s, wrapper %[2]s) %[1]s {'' @ NL @
     TAB @ ''wrapper.wrapped = toWrap'' @ NL @
     TAB @ ''return &wrapper'' @ NL @
     ''}'' @ NL"

definition interfaceMethodFormatReturn :: string where
  "interfaceMethodFormatReturn =
     ''func (%[1]s *%[2]s) %[3]s(%[4]s) %[5]s {'' @ NL @
     TAB @ ''fun := %[1]s.wrapped.%[3]s'' @ NL @
     TAB @ ''if %[1]s.%[3]sMiddleware != nil {'' @ NL @
     TAB @ TAB @ ''fun = %[1]s.%[3]sMiddleware(fun)'' @ NL @
     TAB @ ''}'' @ NL @
     TAB @ ''return fun(%[6]s)'' @ NL @
     ''}'' @ NL @
     NL"

definition interfaceMethodFormatVoid :: string where
  "interfaceMethodFormatVoid =
     ''func (%[1]s *%[2]s) %[3]s(%[4]s) {'' @ NL @
     TAB @ ''fun := %[1]s.wrapped.%[3]s'' @ NL @
     TAB @ ''if %[1]s.%[3]sMiddleware != nil {'' @ NL @
     TAB @ TAB @ ''fun = %[1]s.%[3]sMiddleware(fun)'' @ NL @
     TAB @ ''}'' @ NL @
     TAB @ ''fun(%[5]s)'' @ NL @
     ''}'' @ NL @
     NL"

definition typeStringQuantifier :: "generator \<Rightarrow> pkg \<Rightarrow> string" where
  "typeStringQuantifier g pk = (if pkg_Path pk = PkgPath (gp g) then [] else pkg_Name pk)"

text \<open>
  The loop over the parameters in \<open>generateMiddlewareMethod\<close>: \<open>i\<close> is the loop index, the
  list holds \<open>Params().At(i), At(i + 1), ...\<close>, and the pair is
  \<open>(parametersList, argumentsList)\<close>.
\<close>

fun parametersLoop ::
  "generator \<Rightarrow> nat \<Rightarrow> var list \<Rightarrow> string \<times> string \<Rightarrow> string \<times> string" where
  "parametersLoop g i [] (parametersList, argumentsList) = (parametersList, argumentsList)"
| "parametersLoop g i (param # rest) (parametersList, argumentsList) =
     (let typeString = types_TypeString (typeStringQuantifier g) (vtype param)
      in parametersLoop g (Suc i) rest
           (parametersList @ Sprintf ''a%d %s, '' [D (int i), S typeString],
            argumentsList @ Sprintf ''a%d, '' [D (int i)]))"

definition generateMiddlewareMethod :: "generator \<Rightarrow> func \<Rightarrow> generator" where
  "generateMiddlewareMethod g fn =
     (let methodSignature = ftype fn;
          (parametersList, argumentsList) =
             parametersLoop g 0 (Params methodSignature) ([], []);
          parameters = strings_TrimSuffix parametersList '', '';
          arguments = strings_TrimSuffix argumentsList '', ''
      in if length (Results methodSignature) = 0
         then g\<lparr>interfaceMethods := interfaceMethods g @
                  Sprintf interfaceMethodFormatVoid
                    [S (targetFirstLetter g), S (structName g), S (fname fn),
                     S parameters, S arguments]\<rparr>
         else
           (let returnTypes =
                  map (\<lambda>r. types_TypeString (typeStringQuantifier g) (vtype r))
                    (Results methodSignature);
                returnType = strings_Join returnTypes '', '';
                returnType =
                  (if length (Results methodSignature) \<noteq> 1 then ''('' @ returnType @ '')''
                   else returnType)
            in g\<lparr>interfaceMethods := interfaceMethods g @
                    Sprintf interfaceMethodFormatReturn
                      [S (targetFirstLetter g), S (structName g), S (fname fn),
                       S parameters, S returnType, S arguments]\<rparr>))"

text \<open>The body of the loop of \<open>generateInterfaceMethods\<close>, for the method \<open>fn = Method(i)\<close>.\<close>

definition generateInterfaceMethod :: "generator \<Rightarrow> func \<Rightarrow> generator" where
  "generateInterfaceMethod g fn =
     (let handlerTypeName = Sprintf ''%sHandler'' [S (fname fn)];
          sigString = types_WriteSignature (typeStringQuantifier g) (ftype fn);
          g = g\<lparr>handlerFuncTypes := handlerFuncTypes g @
                  Sprintf (''type %s func%s'' @ NL) [S handlerTypeName, S sigString]\<rparr>;
          structFieldName = Sprintf ''%sMiddleware'' [S (fname fn)];
          g = g\<lparr>middlewareStruct := middlewareStruct g @
                  Sprintf (TAB @ ''%s func(%[2]s) %[2]s'' @ NL)
                    [S structFieldName, S handlerTypeName]\<rparr>
      in generateMiddlewareMethod g fn)"

definition generateInterfaceMethods :: "generator \<Rightarrow> interface \<Rightarrow> generator" where
  "generateInterfaceMethods g tgt = foldl generateInterfaceMethod g (methods tgt)"

text \<open>
  \<open>generateWrapperCode\<close>: \<open>um\<close> is the non-ASCII path of \<open>strings.ToLower\<close>. The slice
  expression \<open>g.targetName[0:1]\<close> panics when the name has no byte.
\<close>

definition generateWrapperCode :: "(string \<Rightarrow> string) \<Rightarrow> generator \<Rightarrow> error + generator" where
  "generateWrapperCode um g =
     (let g = g\<lparr>wrapFunction := [], middlewareStruct := [], handlerFuncTypes := [],
                interfaceMethods := []\<rparr>;
          g = g\<lparr>structName := Sprintf ''%sMiddleware'' [S (targetName g)]\<rparr>
      in if length (targetName g) < 1 then Inl SliceBoundsPanic
         else
           (let g = g\<lparr>targetFirstLetter := strings_ToLower um (take 1 (targetName g))\<rparr>;
                g = g\<lparr>wrapFunction := wrapFunction g @
                        Sprintf wrapFunctionFormat [S (targetName g), S (structName g)]\<rparr>;
                g = g\<lparr>middlewareStruct := middlewareStruct g @
                        Sprintf (''// %s implements %s'' @ NL) [S (structName g), S (targetName g)]\<rparr>;
                g = g\<lparr>middlewareStruct := middlewareStruct g @
                        Sprintf (''type %s struct {'' @ NL) [S (structName g)]\<rparr>;
                g = g\<lparr>middlewareStruct := middlewareStruct g @
                        Sprintf (TAB @ ''wrapped %s'' @ NL) [S (targetName g)]\<rparr>;
                g = g\<lparr>middlewareStruct := middlewareStruct g @ NL\<rparr>;
                g = generateInterfaceMethods g (target g)
            in Inr (g\<lparr>middlewareStruct := middlewareStruct g @ ''}'' @ NL\<rparr>)))"

text \<open>\<open>print\<close> returns what it writes to the writer; \<open>args\<close> is \<open>os.Args[1:]\<close>.\<close>

definition print :: "generator \<Rightarrow> string list \<Rightarrow> string" where
  "print g args =
     Sprintf (''// Code generated by '' @ DQ @ ''middlewarer %s'' @ DQ @ ''; DO NOT EDIT.'' @ NL)
       [S (strings_Join args '' '')] @
     Sprintf (''package %s'' @ NL) [S (Name (gp g))] @
     NL @
     wrapFunction g @
     NL @
     middlewareStruct g @
     NL @
     handlerFuncTypes g @
     NL @
     interfaceMethods g @
     NL"


section \<open>The entry point\<close>

text \<open>
  \<open>config\<close> holds the values of the flags \<open>-type\<close>, \<open>-output\<close> and \<open>-d\<close> after
  \<open>flag.Parse()\<close>. \<open>env\<close> is what the run
  meets outside the program: the arguments \<open>os.Args[1:]\<close>, the usage text of the flag
  package, the Unicode path of \<open>strings.ToLower\<close>, whether \<open>os.OpenFile\<close> fails for a
  path (and with which error), what \<open>packages.Load\<close> returns, what the \<open>goimports\<close>
  process does with its input, and whether closing the output file fails. \<open>world\<close> is
  what the run can change: the files, standard output and standard error.
\<close>

record config =
  typeName :: string
  outputFile :: string
  debug :: bool

datatype formatted = StartFailed string | ExitFailed string string | Formatted string

record env =
  osArgs :: "string list"
  usage :: string
  unicodeLower :: "string \<Rightarrow> string"
  openError :: "string \<Rightarrow> string option"
  loaded :: "string + package list"
  goimports :: "string \<Rightarrow> formatted"
  closeError :: "string option"

record world =
  files :: "string \<Rightarrow> string option"
  stdout :: string
  stderr :: string

datatype writer = Stdout | File string

text \<open>
  \<open>log.Printf\<close> and \<open>log.Fatalf\<close> after \<open>log.SetFlags(0)\<close> and
  \<open>log.SetPrefix("middlewarer: ")\<close>: the prefix, the message, and a newline unless the
  message ends with one. A panic is reported by the run-time system instead.
\<close>

definition logOutput :: "string \<Rightarrow> string" where
  "logOutput s = ''middlewarer: '' @ s @ (if strings_HasSuffix s NL then [] else NL)"

definition fatal :: "world \<Rightarrow> error \<Rightarrow> world \<times> error option" where
  "fatal w e =
     (w\<lparr>stderr := stderr w @
           (if e = SliceBoundsPanic then diagnostic e @ NL else logOutput (diagnostic e))\<rparr>,
      Some e)"

text \<open>\<open>os.OpenFile\<close> with \<open>O_CREATE|O_WRONLY|O_TRUNC\<close> leaves the file existing and empty.\<close>

definition os_OpenFile :: "world \<Rightarrow> string \<Rightarrow> world" where
  "os_OpenFile w path = w\<lparr>files := (files w)(path \<mapsto> [])\<rparr>"

definition Fprint :: "writer \<Rightarrow> string \<Rightarrow> world \<Rightarrow> world" where
  "Fprint dest res w =
     (case dest of
        Stdout \<Rightarrow> w\<lparr>stdout := stdout w @ res\<rparr>
      | File path \<Rightarrow>
          w\<lparr>files := (files w)(path \<mapsto> (case files w path of None \<Rightarrow> res | Some old \<Rightarrow> old @ res))\<rparr>)"

definition outFileName :: "config \<Rightarrow> env \<Rightarrow> string" where
  "outFileName cfg ev =
     (let outFileName =
            Sprintf ''%s_middleware.go'' [S (strings_ToLower (unicodeLower ev) (typeName cfg))]
      in if outputFile cfg \<noteq> [] then outputFile cfg else outFileName)"

text \<open>
  \<open>main\<close> returns the world it leaves and the error it exited with, if any. An exit
  through \<open>os.Exit\<close> or \<open>log.Fatalf\<close> does not run the deferred \<open>Close\<close>.
\<close>

definition main :: "config \<Rightarrow> env \<Rightarrow> world \<Rightarrow> world \<times> error option" where
  "main cfg ev w =
     (if typeName cfg = []
      then fatal (w\<lparr>stderr := stderr w @ usage ev\<rparr>) ConfigError
      else
        (case (if debug cfg then Inr (Stdout, w)
               else (case openError ev (outFileName cfg ev) of
                       Some err \<Rightarrow> Inl (OpenError (outFileName cfg ev) err)
                     | None \<Rightarrow>
                         Inr (File (outFileName cfg ev), os_OpenFile w (outFileName cfg ev)))) of
           Inl e \<Rightarrow> fatal w e
         | Inr (destWriter, w) \<Rightarrow>
             (case init (loaded ev) (typeName cfg) of
                Inl e \<Rightarrow> fatal w e
              | Inr g \<Rightarrow>
                  (case generateWrapperCode (unicodeLower ev) g of
                     Inl e \<Rightarrow> fatal w e
                   | Inr g \<Rightarrow>
                       (case goimports ev (print g (osArgs ev)) of
                          StartFailed err \<Rightarrow> fatal w (StartError err)
                        | ExitFailed err errOut \<Rightarrow> fatal w (FormatError err errOut)
                        | Formatted res \<Rightarrow>
                            (let w = Fprint destWriter res w
                             in case destWriter of
                                  Stdout \<Rightarrow> (w, None)
                                | File path \<Rightarrow>
                                    (case closeError ev of
                                       Some err \<Rightarrow> fatal w (CloseError err)
                                     | None \<Rightarrow> (w, None))))))))"

subsection \<open>The entry point of \<open>part_000\<close>\<close>

text \<open>
  The file \<open>part_000\<close> has a \<open>main\<close> and an \<open>init\<close> of its own. Its guard compares the
  pointer \<open>typeName\<close> with \<open>nil\<close>. \<open>flag.String\<close> returns the address of a variable
  that holds the value of the flag, the default \<open>""\<close> when the flag is not given: a
  pointer is \<open>Some\<close> of what it points to, and \<open>nil\<close> is \<open>None\<close>. On a normal return
  the interface found is printed; the result is that interface.
\<close>

definition flag_String :: "string \<Rightarrow> string option" where
  "flag_String v = Some v"

definition init_part000 :: "string + package list \<Rightarrow> string \<Rightarrow> error + interface" where
  "init_part000 loadResult tgt =
     (case loadResult of
        Inl err \<Rightarrow> Inl (LoadError err)
      | Inr packs \<Rightarrow>
          if length packs \<noteq> 1 then Inl (AmbiguousUnit (length packs))
          else
            (case Scope (packs ! 0) tgt of
               None \<Rightarrow> Inl (NotFound tgt)
             | Some UOther \<Rightarrow> Inl (NotAContract tgt)
             | Some (UInterface iFace) \<Rightarrow> Inr iFace))"

definition main_part000 :: "string \<Rightarrow> string + package list \<Rightarrow> error + interface" where
  "main_part000 typeFlag loadResult =
     (let typeNamePtr = flag_String typeFlag
      in case typeNamePtr of
           None \<Rightarrow> Inl ConfigError
         | Some name \<Rightarrow> init_part000 loadResult name)"

section \<open>What the specification says, as definitions\<close>

text \<open>
  The definitions of this section are not translations of the program. They spell out the
  text that the specification describes, so that the text the program produces can be
  compared with it.
\<close>

subsection \<open>Stages of a run\<close>

text \<open>
  A run fails after startup when it fails in resolution, in generation or in the
  formatter: not when the flags are rejected, when the output file cannot be opened, or
  when it cannot be closed in the end.
\<close>

fun afterStartup :: "error \<Rightarrow> bool" where
  "afterStartup ConfigError = False"
| "afterStartup (OpenError path err) = False"
| "afterStartup (CloseError err) = False"
| "afterStartup e = True"

subsection \<open>The text of one method\<close>

text \<open>Parameters are named by position: \<open>a0\<close>, \<open>a1\<close>, and so on.\<close>

definition syntheticName :: "nat \<Rightarrow> string" where
  "syntheticName i = ''a'' @ dec_nat i"

definition expectedParameters :: "(pkg \<Rightarrow> string) \<Rightarrow> var list \<Rightarrow> string" where
  "expectedParameters qf ps =
     strings_Join
       (map (\<lambda>(i, param). syntheticName i @ '' '' @ types_TypeString qf (vtype param))
          (enumerate 0 ps)) '', ''"

definition expectedArguments :: "nat \<Rightarrow> string" where
  "expectedArguments n = strings_Join (map syntheticName [0..<n]) '', ''"

text \<open>
  No result: no return type. One result: its type. Two or more: the types, joined by
  commas, in parentheses. The text starts with the blank that separates it from the
  parameter list.
\<close>

definition expectedResultType :: "(pkg \<Rightarrow> string) \<Rightarrow> var list \<Rightarrow> string" where
  "expectedResultType qf rs =
     (case rs of
        [] \<Rightarrow> []
      | [r] \<Rightarrow> '' '' @ types_TypeString qf (vtype r)
      | r # r' # rs' \<Rightarrow>
          '' ('' @ strings_Join (map (\<lambda>r. types_TypeString qf (vtype r)) rs) '', '' @ '')'')"

definition expectedSignatureLine :: "string \<Rightarrow> string \<Rightarrow> (pkg \<Rightarrow> string) \<Rightarrow> func \<Rightarrow> string" where
  "expectedSignatureLine r st qf fn =
     ''func ('' @ r @ '' *'' @ st @ '') '' @ fname fn @
     ''('' @ expectedParameters qf (Params (ftype fn)) @ '')'' @
     expectedResultType qf (Results (ftype fn)) @ '' {'' @ NL"

text \<open>
  The body binds \<open>fun\<close> to the method of the wrapped value, replaces it by the override
  applied to it when the override field is not \<open>nil\<close>, and calls it with the synthesized
  arguments; it returns what the call returns when the method has results.
\<close>

definition expectedBody :: "string \<Rightarrow> func \<Rightarrow> string" where
  "expectedBody r fn =
     TAB @ ''fun := '' @ r @ ''.wrapped.'' @ fname fn @ NL @
     TAB @ ''if '' @ r @ ''.'' @ fname fn @ ''Middleware != nil {'' @ NL @
     TAB @ TAB @ ''fun = '' @ r @ ''.'' @ fname fn @ ''Middleware(fun)'' @ NL @
     TAB @ ''}'' @ NL @
     TAB @ (if Results (ftype fn) = [] then [] else ''return '') @
       ''fun('' @ expectedArguments (length (Params (ftype fn))) @ '')'' @ NL @
     ''}'' @ NL @
     NL"

definition expectedMethod :: "string \<Rightarrow> string \<Rightarrow> (pkg \<Rightarrow> string) \<Rightarrow> func \<Rightarrow> string" where
  "expectedMethod r st qf fn = expectedSignatureLine r st qf fn @ expectedBody r fn"

subsection \<open>Handler aliases, override fields, constructor and wrapper type\<close>

definition expectedAlias :: "(pkg \<Rightarrow> string) \<Rightarrow> func \<Rightarrow> string" where
  "expectedAlias qf fn =
     ''type '' @ fname fn @ ''Handler func'' @ types_WriteSignature qf (ftype fn) @ NL"

definition expectedField :: "func \<Rightarrow> string" where
  "expectedField fn =
     TAB @ fname fn @ ''Middleware func('' @ fname fn @ ''Handler) '' @ fname fn @ ''Handler'' @ NL"

definition expectedConstructor :: "string \<Rightarrow> string" where
  "expectedConstructor t =
     ''// Wrap'' @ t @ '' returns the passed '' @ t @
       '' wrapped in the middleware defined in '' @ t @ ''Middleware'' @ NL @
     ''func Wrap'' @ t @ ''(toWrap '' @ t @ '', wrapper '' @ t @ ''Middleware) '' @ t @ '' {'' @ NL @
     TAB @ ''wrapper.wrapped = toWrap'' @ NL @
     TAB @ ''return &wrapper'' @ NL @
     ''}'' @ NL"

definition expectedStruct :: "string \<Rightarrow> func list \<Rightarrow> string" where
  "expectedStruct t ms =
     ''// '' @ t @ ''Middleware implements '' @ t @ NL @
     ''type '' @ t @ ''Middleware struct {'' @ NL @
     TAB @ ''wrapped '' @ t @ NL @
     NL @
     concat (map expectedField ms) @
     ''}'' @ NL"

subsection \<open>Qualified type text\<close>

text \<open>
  The name under which a named type is written: unqualified when the type has no package
  or when its package is the one the generator runs in (\<open>home\<close>), and otherwise the
  name of its package, a dot, and the name of the type. (A package with an empty name
  contributes nothing.) \<open>qualifiedText nm\<close> is the text of a type in which every named
  type, at any depth, is written as the naming rule \<open>nm\<close> says, here
  \<open>qualifiedName home\<close>; \<open>qualifiedSignature nm\<close> is the same for a signature, with the names
  of its parameters and results.
\<close>

fun qualifiedName :: "string \<Rightarrow> pkg option \<Rightarrow> string \<Rightarrow> string" where
  "qualifiedName home None n = n"
| "qualifiedName home (Some pk) n =
     (if pkg_Path pk = home then n
      else if pkg_Name pk = [] then n
      else pkg_Name pk @ ''.'' @ n)"

fun qualifiedText :: "(pkg option \<Rightarrow> string \<Rightarrow> string) \<Rightarrow> gotype \<Rightarrow> string"
  and qualifiedList :: "(pkg option \<Rightarrow> string \<Rightarrow> string) \<Rightarrow> gotype list \<Rightarrow> string"
  and qualifiedSignature :: "(pkg option \<Rightarrow> string \<Rightarrow> string) \<Rightarrow> signature \<Rightarrow> string"
  and qualifiedResults :: "(pkg option \<Rightarrow> string \<Rightarrow> string) \<Rightarrow> var list \<Rightarrow> string"
  and qualifiedTuple :: "(pkg option \<Rightarrow> string \<Rightarrow> string) \<Rightarrow> bool \<Rightarrow> var list \<Rightarrow> string"
  and qualifiedVar :: "(pkg option \<Rightarrow> string \<Rightarrow> string) \<Rightarrow> bool \<Rightarrow> var \<Rightarrow> string"
  and qualifiedDots :: "(pkg option \<Rightarrow> string \<Rightarrow> string) \<Rightarrow> gotype \<Rightarrow> string"
where
  "qualifiedText nm (Basic n) = n"
| "qualifiedText nm (Named po n targs) =
     nm po n @
     (if targs = [] then [] else ''['' @ qualifiedList nm targs @ '']'')"
| "qualifiedText nm (TypeParam n) = n"
| "qualifiedText nm (Pointer t) = ''*'' @ qualifiedText nm t"
| "qualifiedText nm (Slice t) = ''[]'' @ qualifiedText nm t"
| "qualifiedText nm (Array n t) = ''['' @ dec_nat n @ '']'' @ qualifiedText nm t"
| "qualifiedText nm (Map k v) = ''map['' @ qualifiedText nm k @ '']'' @ qualifiedText nm v"
| "qualifiedText nm (Chan d t) =
     (case d of
        SendRecv \<Rightarrow>
          ''chan '' @ (if isRecvOnlyChan t then ''('' @ qualifiedText nm t @ '')''
                      else qualifiedText nm t)
      | SendOnly \<Rightarrow> ''chan<- '' @ qualifiedText nm t
      | RecvOnly \<Rightarrow> ''<-chan '' @ qualifiedText nm t)"
| "qualifiedText nm (Sig sg) = ''func'' @ qualifiedSignature nm sg"
| "qualifiedText nm (Struct fs) =
     ''struct{'' @
     strings_Join
       (map (\<lambda>f. case f of Field n embedded t tag \<Rightarrow>
               (if embedded then [] else n @ '' '') @ qualifiedText nm t @
               (if tag \<noteq> [] then '' '' @ tag else [])) fs) ''; '' @
     ''}''"
| "qualifiedText nm (InterfaceType ms es) =
     ''interface{'' @
     strings_Join
       (map (\<lambda>m. case m of Func n sg \<Rightarrow> n @ qualifiedSignature nm sg) ms @
        map (qualifiedText nm) es) ''; '' @
     ''}''"
| "qualifiedText nm (Union ts) =
     (if ts = [] then ''<empty union>''
      else strings_Join
             (map (\<lambda>u. case u of Term tilde t \<Rightarrow>
                     (if tilde then ''~'' else []) @ qualifiedText nm t) ts) '' | '')"
| "qualifiedList nm [] = []"
| "qualifiedList nm [t] = qualifiedText nm t"
| "qualifiedList nm (t # u # ts) = qualifiedText nm t @ '', '' @ qualifiedList nm (u # ts)"
| "qualifiedSignature nm (Signature ps rs variadic) =
     ''('' @ qualifiedTuple nm variadic ps @ '')'' @ qualifiedResults nm rs"
| "qualifiedResults nm [] = []"
| "qualifiedResults nm [Var n t] =
     '' '' @ (if n = [] then qualifiedText nm t
              else ''('' @ n @ '' '' @ qualifiedText nm t @ '')'')"
| "qualifiedResults nm (r # r' # rs) = '' ('' @ qualifiedTuple nm False (r # r' # rs) @ '')''"
| "qualifiedTuple nm variadic [] = []"
| "qualifiedTuple nm variadic [v] = qualifiedVar nm variadic v"
| "qualifiedTuple nm variadic (v # w # vs) =
     qualifiedVar nm False v @ '', '' @ qualifiedTuple nm variadic (w # vs)"
| "qualifiedVar nm dots (Var n t) =
     (if n \<noteq> [] then n @ '' '' else []) @
     (if dots then qualifiedDots nm t else qualifiedText nm t)"
| "qualifiedDots nm (Slice e) = ''...'' @ qualifiedText nm e"
| "qualifiedDots nm t = qualifiedText nm t @ ''...''"

text \<open>The same parameters or results with the names of the source removed.\<close>

definition eraseNames :: "var list \<Rightarrow> var list" where
  "eraseNames vs = map (\<lambda>v. Var [] (vtype v)) vs"

section \<open>A concrete package\<close>

text \<open>
  The package \<open>foo\<close> declares the interface \<open>Foo\<close> with the methods \<open>Bar(b Baz) Quz\<close>,
  \<open>Init()\<close> and \<open>Serve(w http.ResponseWriter, r *http.Request) (int, error)\<close>, the
  struct \<open>Baz\<close>, the constraint interface \<open>Number\<close> (\<open>interface{ ~int }\<close>) and the empty
  interface \<open>Any\<close>. The directory holds an older \<open>foo_middleware.go\<close>.
\<close>

definition exPkg :: pkg where
  "exPkg = Pkg ''example.com/foo'' ''foo''"

definition httpPkg :: pkg where
  "httpPkg = Pkg ''net/http'' ''http''"

definition exBar :: func where
  "exBar = Func ''Bar'' (Signature [Var ''b'' (Named (Some exPkg) ''Baz'' [])]
                           [Var [] (Named (Some exPkg) ''Quz'' [])] False)"

definition exInit :: func where
  "exInit = Func ''Init'' (Signature [] [] False)"

definition exServe :: func where
  "exServe = Func ''Serve''
     (Signature [Var ''w'' (Named (Some httpPkg) ''ResponseWriter'' []),
                 Var ''r'' (Pointer (Named (Some httpPkg) ''Request'' []))]
                [Var [] (Basic ''int''), Var [] (Named None ''error'' [])] False)"

definition exFoo :: interface where
  "exFoo = \<lparr>methods = [exBar, exInit, exServe], restricted = False\<rparr>"

definition exNumber :: interface where
  "exNumber = \<lparr>methods = [], restricted = True\<rparr>"

definition exAny :: interface where
  "exAny = \<lparr>methods = [], restricted = False\<rparr>"

definition exPackage :: package where
  "exPackage =
     \<lparr>Name = ''foo'', PkgPath = ''example.com/foo'',
      Scope = [''Foo'' \<mapsto> UInterface exFoo, ''Baz'' \<mapsto> UOther,
               ''Number'' \<mapsto> UInterface exNumber, ''Any'' \<mapsto> UInterface exAny]\<rparr>"

definition exGenerator :: generator where
  "exGenerator =
     \<lparr>gp = exPackage, target = exFoo, targetName = ''Foo'', targetFirstLetter = [],
      structName = [], wrapFunction = [], middlewareStruct = [], handlerFuncTypes = [],
      interfaceMethods = []\<rparr>"

definition exEnv :: env where
  "exEnv =
     \<lparr>osArgs = [''-type=Foo''], usage = ''Usage of middlewarer:'' @ NL,
      unicodeLower = (\<lambda>s. s), openError = (\<lambda>path. None), loaded = Inr [exPackage],
      goimports = Formatted, closeError = None\<rparr>"

definition exWorld :: world where
  "exWorld = \<lparr>files = [''foo_middleware.go'' \<mapsto> ''package foo'' @ NL], stdout = [], stderr = []\<rparr>"

definition exConfig :: "string \<Rightarrow> config" where
  "exConfig name = \<lparr>typeName = name, outputFile = ''foo_middleware.go'', debug = False\<rparr>"

text \<open>
  The interface \<open>Zoo\<close> of the same package declares \<open>Zed()\<close>, \<open>Alpha()\<close> and \<open>Mid()\<close>, in
  that order.
\<close>

definition exZooDeclared :: "func list" where
  "exZooDeclared =
     [Func ''Zed'' (Signature [] [] False), Func ''Alpha'' (Signature [] [] False),
      Func ''Mid'' (Signature [] [] False)]"

definition exZoo :: interface where
  "exZoo = interfaceOf (\<lambda>name. False) ''example.com/foo'' exZooDeclared False"

definition exZooGenerator :: generator where
  "exZooGenerator =
     \<lparr>gp = exPackage, target = exZoo, targetName = ''Zoo'', targetFirstLetter = [],
      structName = [], wrapFunction = [], middlewareStruct = [], handlerFuncTypes = [],
      interfaceMethods = []\<rparr>"

text \<open>
  What the generator emits for \<open>Foo\<close> when run as \<open>middlewarer -type=Foo\<close>, before the
  formatter sees it.
\<close>

definition exArtifact :: string where
  "exArtifact =
     ''// Code generated by '' @ DQ @ ''middlewarer -type=Foo'' @ DQ @ ''; DO NOT EDIT.'' @ NL @
     ''package foo'' @ NL @
     NL @
     ''// WrapFoo returns the passed Foo wrapped in the middleware defined in FooMiddleware'' @ NL @
     ''func WrapFoo(toWrap Foo, wrapper FooMiddleware) Foo {'' @ NL @
     TAB @ ''wrapper.wrapped = toWrap'' @ NL @
     TAB @ ''return &wrapper'' @ NL @
     ''}'' @ NL @
     NL @
     ''// FooMiddleware implements Foo'' @ NL @
     ''type FooMiddleware struct {'' @ NL @
     TAB @ ''wrapped Foo'' @ NL @
     NL @
     TAB @ ''BarMiddleware func(BarHandler) BarHandler'' @ NL @
     TAB @ ''InitMiddleware func(InitHandler) InitHandler'' @ NL @
     TAB @ ''ServeMiddleware func(ServeHandler) ServeHandler'' @ NL @
     ''}'' @ NL @
     NL @
     ''type BarHandler func(b Baz) Quz'' @ NL @
     ''type InitHandler func()'' @ NL @
     ''type ServeHandler func(w http.ResponseWriter, r *http.Request) (int, error)'' @ NL @
     NL @
     ''func (f *FooMiddleware) Bar(a0 Baz) Quz {'' @ NL @
     TAB @ ''fun := f.wrapped.Bar'' @ NL @
     TAB @ ''if f.BarMiddleware != nil {'' @ NL @
     TAB @ TAB @ ''fun = f.BarMiddleware(fun)'' @ NL @
     TAB @ ''}'' @ NL @
     TAB @ ''return fun(a0)'' @ NL @
     ''}'' @ NL @
     NL @
     ''func (f *FooMiddleware) Init() {'' @ NL @
     TAB @ ''fun := f.wrapped.Init'' @ NL @
     TAB @ ''if f.InitMiddleware != nil {'' @ NL @
     TAB @ TAB @ ''fun = f.InitMiddleware(fun)'' @ NL @
     TAB @ ''}'' @ NL @
     TAB @ ''fun()'' @ NL @
     ''}'' @ NL @
     NL @
     ''func (f *FooMiddleware) Serve(a0 http.ResponseWriter, a1 *http.Request) (int, error) {'' @ NL @
     TAB @ ''fun := f.wrapped.Serve'' @ NL @
     TAB @ ''if f.ServeMiddleware != nil {'' @ NL @
     TAB @ TAB @ ''fun = f.ServeMiddleware(fun)'' @ NL @
     TAB @ ''}'' @ NL @
     TAB @ ''return fun(a0, a1)'' @ NL @
     ''}'' @ NL @
     NL @
     NL"

section \<open>Closed forms of the formatted strings\<close>

text \<open>
  Each format of the program, run through \<open>Sprintf\<close> on arbitrary arguments, gives the
  text one reads off the format.
\<close>

lemma dec_int_int: "dec_int (int i) = dec_nat i"
  by (simp add: dec_int_def)

lemma Sprintf_Handler: "Sprintf ''%sHandler'' [S m] = m @ ''Handler''"
  by (simp add: Sprintf_def)

lemma Sprintf_Middleware: "Sprintf ''%sMiddleware'' [S m] = m @ ''Middleware''"
  by (simp add: Sprintf_def)

lemma Sprintf_alias [simplified]:
  "Sprintf (''type %s func%s'' @ NL) [S h, S sg] = ''type '' @ h @ '' func'' @ sg @ NL"
  by (simp add: Sprintf_def)

lemma Sprintf_field [simplified]:
  "Sprintf (TAB @ ''%s func(%[2]s) %[2]s'' @ NL) [S f, S h] =
     TAB @ f @ '' func('' @ h @ '') '' @ h @ NL"
  by (simp add: Sprintf_def digit_of_def)

lemma Sprintf_argument: "Sprintf ''a%d, '' [D (int i)] = syntheticName i @ '', ''"
  by (simp add: Sprintf_def dec_int_int syntheticName_def)

lemma Sprintf_parameter:
  "Sprintf ''a%d %s, '' [D (int i), S t] = (syntheticName i @ '' '' @ t) @ '', ''"
  by (simp add: Sprintf_def dec_int_int syntheticName_def)

lemma Sprintf_Void:
  "Sprintf interfaceMethodFormatVoid [S r, S st, S m, S ps, S as] =
     ''func ('' @ r @ '' *'' @ st @ '') '' @ m @ ''('' @ ps @ '') {'' @ NL @
     TAB @ ''fun := '' @ r @ ''.wrapped.'' @ m @ NL @
     TAB @ ''if '' @ r @ ''.'' @ m @ ''Middleware != nil {'' @ NL @
     TAB @ TAB @ ''fun = '' @ r @ ''.'' @ m @ ''Middleware(fun)'' @ NL @
     TAB @ ''}'' @ NL @
     TAB @ ''fun('' @ as @ '')'' @ NL @
     ''}'' @ NL @
     NL"
  by (simp add: Sprintf_def interfaceMethodFormatVoid_def digit_of_def)

lemma Sprintf_Return:
  "Sprintf interfaceMethodFormatReturn [S r, S st, S m, S ps, S rt, S as] =
     ''func ('' @ r @ '' *'' @ st @ '') '' @ m @ ''('' @ ps @ '') '' @ rt @ '' {'' @ NL @
     TAB @ ''fun := '' @ r @ ''.wrapped.'' @ m @ NL @
     TAB @ ''if '' @ r @ ''.'' @ m @ ''Middleware != nil {'' @ NL @
     TAB @ TAB @ ''fun = '' @ r @ ''.'' @ m @ ''Middleware(fun)'' @ NL @
     TAB @ ''}'' @ NL @
     TAB @ ''return fun('' @ as @ '')'' @ NL @
     ''}'' @ NL @
     NL"
  by (simp add: Sprintf_def interfaceMethodFormatReturn_def digit_of_def)

lemma Sprintf_wrap:
  "Sprintf wrapFunctionFormat [S t, S st] =
     ''// Wrap'' @ t @ '' returns the passed '' @ t @
       '' wrapped in the middleware defined in '' @ st @ NL @
     ''func Wrap'' @ t @ ''(toWrap '' @ t @ '', wrapper '' @ st @ '') '' @ t @ '' {'' @ NL @
     TAB @ ''wrapper.wrapped = toWrap'' @ NL @
     TAB @ ''return &wrapper'' @ NL @
     ''}'' @ NL"
  by (simp add: Sprintf_def wrapFunctionFormat_def digit_of_def)

lemma Sprintf_implements [simplified]:
  "Sprintf (''// %s implements %s'' @ NL) [S st, S t] = ''// '' @ st @ '' implements '' @ t @ NL"
  by (simp add: Sprintf_def)

lemma Sprintf_struct [simplified]: "Sprintf (''type %s struct {'' @ NL) [S st] = ''type '' @ st @ '' struct {'' @ NL"
  by (simp add: Sprintf_def)

lemma Sprintf_wrapped [simplified]: "Sprintf (TAB @ ''wrapped %s'' @ NL) [S t] = TAB @ ''wrapped '' @ t @ NL"
  by (simp add: Sprintf_def)

lemma Sprintf_header [simplified]:
  "Sprintf (''// Code generated by '' @ DQ @ ''middlewarer %s'' @ DQ @ ''; DO NOT EDIT.'' @ NL) [S a] =
     ''// Code generated by '' @ DQ @ ''middlewarer '' @ a @ DQ @ ''; DO NOT EDIT.'' @ NL"
  by (simp add: Sprintf_def)

lemma Sprintf_package [simplified]: "Sprintf (''package %s'' @ NL) [S n] = ''package '' @ n @ NL"
  by (simp add: Sprintf_def)

lemma Sprintf_outFileName: "Sprintf ''%s_middleware.go'' [S n] = n @ ''_middleware.go''"
  by (simp add: Sprintf_def)

section \<open>The loops of the generator\<close>

text \<open>
  Appending \<open>x, \<close> for every element and trimming one trailing separator is joining
  with the separator.
\<close>

lemma concat_sep_Join:
  "ys \<noteq> [] \<Longrightarrow> concat (map (\<lambda>y. y @ sep) ys) = strings_Join ys sep @ sep"
  by (induction ys sep rule: strings_Join.induct) simp_all

lemma TrimSuffix_append: "strings_TrimSuffix (y @ sep) sep = y"
  by (simp add: strings_TrimSuffix_def strings_HasSuffix_def)

lemma TrimSuffix_concat:
  "strings_TrimSuffix (concat (map (\<lambda>y. y @ sep) ys)) sep = strings_Join ys sep"
proof (cases "ys = []")
  case True
  then show ?thesis by (simp add: strings_TrimSuffix_def strings_HasSuffix_def)
next
  case False
  then show ?thesis by (simp add: concat_sep_Join TrimSuffix_append)
qed

lemma parametersLoop_closed:
  "parametersLoop g i ps (pl, al) =
     (pl @ concat (map (\<lambda>y. y @ '', '')
        (map (\<lambda>(k, param). syntheticName k @ '' '' @
               types_TypeString (typeStringQuantifier g) (vtype param)) (enumerate i ps))),
      al @ concat (map (\<lambda>y. y @ '', '') (map syntheticName [i..<i + length ps])))"
proof (induction ps arbitrary: i pl al)
  case Nil
  then show ?case by simp
next
  case (Cons param ps)
  have upt: "[i..<i + length (param # ps)] = i # [Suc i..<Suc i + length ps]"
    by (subst upt_conv_Cons) simp_all
  show ?case
    by (simp only: parametersLoop.simps Let_def Cons.IH upt Sprintf_parameter Sprintf_argument
        enumerate_simps list.map concat.simps append_assoc case_prod_conv)
qed

lemma parameters_text:
  "strings_TrimSuffix (fst (parametersLoop g 0 ps ([], []))) '', '' =
     expectedParameters (typeStringQuantifier g) ps"
  by (simp only: parametersLoop_closed fst_conv append_Nil TrimSuffix_concat
      expectedParameters_def)

lemma arguments_text:
  "strings_TrimSuffix (snd (parametersLoop g 0 ps ([], []))) '', '' =
     expectedArguments (length ps)"
  by (simp only: parametersLoop_closed snd_conv append_Nil TrimSuffix_concat
      expectedArguments_def add_0)

text \<open>What one method adds to the buffers, and what all of them add.\<close>

lemma generateMiddlewareMethod_text:
  "generateMiddlewareMethod g fn =
     g\<lparr>interfaceMethods := interfaceMethods g @
         expectedMethod (targetFirstLetter g) (structName g) (typeStringQuantifier g) fn\<rparr>"
proof (cases "Results (ftype fn)")
  case Nil
  then show ?thesis
    by (simp add: generateMiddlewareMethod_def Let_def split_beta parameters_text arguments_text
        Sprintf_Void expectedMethod_def expectedSignatureLine_def expectedBody_def
        expectedResultType_def)
next
  case (Cons r rs)
  then show ?thesis
    by (cases rs)
      (simp_all add: generateMiddlewareMethod_def Let_def split_beta parameters_text
        arguments_text Sprintf_Return expectedMethod_def expectedSignatureLine_def
        expectedBody_def expectedResultType_def)
qed

lemma typeStringQuantifier_buffers [simp]:
  "typeStringQuantifier (g\<lparr>handlerFuncTypes := h\<rparr>) = typeStringQuantifier g"
  "typeStringQuantifier (g\<lparr>middlewareStruct := m\<rparr>) = typeStringQuantifier g"
  "typeStringQuantifier (g\<lparr>interfaceMethods := i\<rparr>) = typeStringQuantifier g"
  "typeStringQuantifier (g\<lparr>wrapFunction := w\<rparr>) = typeStringQuantifier g"
  "typeStringQuantifier (g\<lparr>structName := s\<rparr>) = typeStringQuantifier g"
  "typeStringQuantifier (g\<lparr>targetFirstLetter := l\<rparr>) = typeStringQuantifier g"
  by (simp_all add: typeStringQuantifier_def fun_eq_iff)

lemma generateInterfaceMethod_text:
  "generateInterfaceMethod g fn =
     g\<lparr>handlerFuncTypes := handlerFuncTypes g @ expectedAlias (typeStringQuantifier g) fn,
       middlewareStruct := middlewareStruct g @ expectedField fn,
       interfaceMethods := interfaceMethods g @
         expectedMethod (targetFirstLetter g) (structName g) (typeStringQuantifier g) fn\<rparr>"
  by (simp add: generateInterfaceMethod_def Let_def generateMiddlewareMethod_text
      Sprintf_Handler Sprintf_Middleware Sprintf_alias Sprintf_field expectedAlias_def
      expectedField_def)

lemma foldl_generateInterfaceMethod:
  "foldl generateInterfaceMethod g ms =
     g\<lparr>handlerFuncTypes := handlerFuncTypes g @
         concat (map (expectedAlias (typeStringQuantifier g)) ms),
       middlewareStruct := middlewareStruct g @ concat (map expectedField ms),
       interfaceMethods := interfaceMethods g @
         concat (map (expectedMethod (targetFirstLetter g) (structName g)
                        (typeStringQuantifier g)) ms)\<rparr>"
proof (induction ms arbitrary: g)
  case Nil
  then show ?case by simp
next
  case (Cons fn fns)
  show ?case
    by (simp only: foldl_Cons Cons.IH) (simp add: generateInterfaceMethod_text)
qed

lemma generateWrapperCode_text:
  assumes "targetName g \<noteq> []"
  shows "generateWrapperCode um g =
     Inr (g\<lparr>targetFirstLetter := strings_ToLower um (take 1 (targetName g)),
            structName := targetName g @ ''Middleware'',
            wrapFunction := expectedConstructor (targetName g),
            middlewareStruct := expectedStruct (targetName g) (methods (target g)),
            handlerFuncTypes :=
              concat (map (expectedAlias (typeStringQuantifier g)) (methods (target g))),
            interfaceMethods :=
              concat (map (expectedMethod (strings_ToLower um (take 1 (targetName g)))
                             (targetName g @ ''Middleware'') (typeStringQuantifier g))
                        (methods (target g)))\<rparr>)"
  using assms
  by (cases "targetName g")
    (simp_all add: generateWrapperCode_def Let_def generateInterfaceMethods_def
      foldl_generateInterfaceMethod Sprintf_Middleware Sprintf_wrap Sprintf_implements
      Sprintf_struct Sprintf_wrapped expectedConstructor_def expectedStruct_def)

lemma generateWrapperCode_panic:
  "generateWrapperCode um g = Inl e \<longleftrightarrow> (targetName g = [] \<and> e = SliceBoundsPanic)"
  by (cases "targetName g") (auto simp: generateWrapperCode_def Let_def)

section \<open>Qualification\<close>

lemma packagePrefix_qualifiedName:
  "packagePrefix po (typeStringQuantifier g) @ n = qualifiedName (PkgPath (gp g)) po n"
  by (cases po) (simp_all add: packagePrefix_def typeStringQuantifier_def Let_def)

text \<open>
  Under the qualifier of the generator, \<open>go/types\<close> writes a type, a list of type
  arguments, a signature, a result list, a parameter list and a single parameter as the
  qualified text says.
\<close>

lemma TypeString_qualifiedText:
  "types_TypeString qf t = qualifiedText (qualifiedName (PkgPath (gp g))) t"
  "typeList qf ts = qualifiedList (qualifiedName (PkgPath (gp g))) ts"
  "types_WriteSignature qf sg = qualifiedSignature (qualifiedName (PkgPath (gp g))) sg"
  "writeResults qf rs = qualifiedResults (qualifiedName (PkgPath (gp g))) rs"
  "tuple qf variadic vs = qualifiedTuple (qualifiedName (PkgPath (gp g))) variadic vs"
  "writeVar qf dots v = qualifiedVar (qualifiedName (PkgPath (gp g))) dots v"
  "writeDots qf t' = qualifiedDots (qualifiedName (PkgPath (gp g))) t'"
  if "qf = typeStringQuantifier g"
  using that
proof (induction qf t and qf ts and qf sg and qf rs and qf variadic vs and qf dots v and qf t'
    rule: types_TypeString_typeList_types_WriteSignature_writeResults_tuple_writeVar_writeDots.induct)
  case (2 qf po n targs)
  then show ?case
    using packagePrefix_qualifiedName [of po g n]
    by simp
next
  case (8 qf d t)
  then show ?case
    by (cases d; cases "isRecvOnlyChan t") simp_all
next
  case (10 qf fs)
  have "map (\<lambda>f. case f of Field n embedded t tag \<Rightarrow>
               (if embedded then [] else n @ '' '') @ types_TypeString qf t @
               (if tag \<noteq> [] then '' '' @ tag else [])) fs =
        map (\<lambda>f. case f of Field n embedded t tag \<Rightarrow>
               (if embedded then [] else n @ '' '') @
               qualifiedText (qualifiedName (PkgPath (gp g))) t @
               (if tag \<noteq> [] then '' '' @ tag else [])) fs"
    using 10 by (intro map_cong refl) (auto split: field.splits)
  then show ?case by (simp only: types_TypeString.simps qualifiedText.simps)
next
  case (11 qf ms es)
  have "map (\<lambda>m. case m of Func n sg \<Rightarrow> n @ types_WriteSignature qf sg) ms =
        map (\<lambda>m. case m of Func n sg \<Rightarrow>
               n @ qualifiedSignature (qualifiedName (PkgPath (gp g))) sg) ms"
    using 11 by (intro map_cong refl) (auto split: func.splits)
  moreover have "map (types_TypeString qf) es =
                 map (qualifiedText (qualifiedName (PkgPath (gp g)))) es"
    using 11 by (intro map_cong refl) auto
  ultimately show ?case by (simp only: types_TypeString.simps qualifiedText.simps)
next
  case (12 qf ts)
  show ?case
  proof (cases "ts = []")
    case True
    then show ?thesis by simp
  next
    case False
    have "map (\<lambda>u. case u of Term tilde t \<Rightarrow>
                 (if tilde then ''~'' else []) @ types_TypeString qf t) ts =
          map (\<lambda>u. case u of Term tilde t \<Rightarrow>
                 (if tilde then ''~'' else []) @
                 qualifiedText (qualifiedName (PkgPath (gp g))) t) ts"
      using 12 False by (intro map_cong refl) (auto split: uterm.splits)
    then show ?thesis by (simp only: types_TypeString.simps qualifiedText.simps)
  qed
qed simp_all

section \<open>The order of the methods\<close>

text \<open>
  Sorting by id permutes the declared methods; for \<open>Zoo\<close> it puts \<open>Alpha\<close> and \<open>Mid\<close>
  before \<open>Zed\<close>.
\<close>

lemma count_list_insort_key:
  "count_list (insort_key f x xs) y = count_list (x # xs) y"
  by (induction xs) auto

lemma count_list_sort_key: "count_list (sort_key f xs) y = count_list xs y"
  by (induction xs) (simp_all add: count_list_insort_key)

lemma methods_exZoo:
  "methods exZoo =
     [Func ''Alpha'' (Signature [] [] False), Func ''Mid'' (Signature [] [] False),
      Func ''Zed'' (Signature [] [] False)]"
  by (simp add: exZoo_def interfaceOf_def sortMethods_def exZooDeclared_def types_Id_def
      token_IsExported_def isASCII_def)

text \<open>The names of parameters and results do not reach the text of a method.\<close>

lemma parametersLoop_eraseNames:
  "parametersLoop g i (eraseNames ps) acc = parametersLoop g i ps acc"
proof (induction ps arbitrary: i acc)
  case Nil
  then show ?case by (simp add: eraseNames_def)
next
  case (Cons param ps)
  obtain pl al where acc: "acc = (pl, al)" by (cases acc)
  show ?case
    using Cons.IH by (simp add: acc eraseNames_def)
qed

lemma expectedMethod_eraseNames:
  "expectedMethod r st (typeStringQuantifier g)
     (Func m (Signature (eraseNames ps) (eraseNames rs) variadic)) =
   expectedMethod r st (typeStringQuantifier g) (Func m (Signature ps rs variadic))"
proof -
  have ps: "expectedParameters (typeStringQuantifier g) (eraseNames ps) =
            expectedParameters (typeStringQuantifier g) ps"
    by (simp only: parameters_text [symmetric] parametersLoop_eraseNames)
  have rs: "expectedResultType (typeStringQuantifier g) (eraseNames rs) =
            expectedResultType (typeStringQuantifier g) rs"
    by (simp add: expectedResultType_def eraseNames_def o_def split: list.splits)
  show ?thesis
    by (simp add: expectedMethod_def expectedSignatureLine_def expectedBody_def ps rs)
      (simp add: eraseNames_def)
qed

section \<open>Exits\<close>

lemma fatal_world [simp]:
  "files (fst (fatal w e)) = files w" "stdout (fst (fatal w e)) = stdout w"
  "snd (fatal w e) = Some e"
  by (simp_all add: fatal_def)

lemma init_errors:
  "init loadResult tgt = Inl e \<Longrightarrow> afterStartup e"
  by (auto simp: init_def split: sum.splits if_splits option.splits underlying.splits)

lemma init_Inr:
  assumes "init loadResult tgt = Inr g"
  shows "targetName g = tgt"
  using assms
  by (auto simp: init_def split: sum.splits if_splits option.splits underlying.splits)

lemma main_success:
  assumes "main cfg ev w = (w', None)"
  shows "\<exists>g g' res. typeName cfg \<noteq> [] \<and> init (loaded ev) (typeName cfg) = Inr g \<and>
     generateWrapperCode (unicodeLower ev) g = Inr g' \<and>
     goimports ev (print g' (osArgs ev)) = Formatted res \<and>
     (if debug cfg then stdout w' = stdout w @ res \<and> files w' = files w
      else files w' = (files w)(outFileName cfg ev \<mapsto> res) \<and> stdout w' = stdout w)"
  using assms
  by (auto simp: main_def os_OpenFile_def Fprint_def Let_def fatal_def
      split: if_splits sum.splits option.splits formatted.splits writer.splits prod.splits)

lemma print_layout:
  assumes "targetName g \<noteq> []" and "generateWrapperCode um g = Inr g'"
  shows "print g' args =
     ''// Code generated by '' @ DQ @ ''middlewarer '' @ strings_Join args '' '' @ DQ @
       ''; DO NOT EDIT.'' @ NL @
     ''package '' @ Name (gp g) @ NL @
     NL @
     expectedConstructor (targetName g) @
     NL @
     expectedStruct (targetName g) (methods (target g)) @
     NL @
     concat (map (expectedAlias (typeStringQuantifier g)) (methods (target g))) @
     NL @
     concat (map (expectedMethod (strings_ToLower um (take 1 (targetName g)))
                    (targetName g @ ''Middleware'') (typeStringQuantifier g))
               (methods (target g))) @
     NL"
  using assms(2) unfolding generateWrapperCode_text [OF assms(1)]
  by (auto simp: print_def Sprintf_header Sprintf_package)

lemma diagnostic_text:
  "diagnostic (LoadError err) = ''Failed to load packages - '' @ err"
  "diagnostic (AmbiguousUnit n) = ''Loaded package length is not 1, but '' @ dec_nat n"
  "diagnostic (NotFound tgt) =
     ''Couldn't find target object '' @ SQ @ tgt @ SQ @ '' in source file''"
  "diagnostic (NotAContract tgt) =
     ''Provided target object '' @ SQ @ tgt @ SQ @ '' is not an interface''"
  "diagnostic EmptyContract = ''Trying to generate middlewarer for an empty interface''"
  by (simp_all add: Sprintf_def dec_int_int)

text \<open>
  The guard of \<open>main\<close> in \<open>main.go\<close> tests the value of the flag: a run without a type
  name prints the usage text and the diagnostic and exits with \<open>ConfigError\<close>, and
  nothing else happens.
\<close>

lemma main_missing_type:
  assumes "typeName cfg = []"
  shows "main cfg ev w =
     (w\<lparr>stderr := stderr w @ usage ev @ ''middlewarer: no type name supplied'' @ NL\<rparr>,
      Some ConfigError)"
  using assms
  by (simp add: main_def fatal_def logOutput_def Sprintf_def strings_HasSuffix_def)

text \<open>
  With a name of at least one byte the slice expression does not panic, and the receiver
  is \<open>strings.ToLower\<close> of the first byte: for an ASCII byte, that byte in lower case.
\<close>

lemma generateWrapperCode_receiver:
  assumes "targetName g \<noteq> []"
  shows "\<exists>g'. generateWrapperCode um g = Inr g' \<and>
     targetFirstLetter g' = strings_ToLower um (take 1 (targetName g))"
  using assms by (simp add: generateWrapperCode_text)

lemma receiver_ASCII:
  assumes "isASCII c"
  shows "strings_ToLower um (take 1 (c # cs)) = [lowerByte c]"
  using assms by (simp add: strings_ToLower_def)

section \<open>The claims\<close>

subsection \<open>C1: what a failing run leaves behind\<close>

text \<open>
  C1, as stated, fails. The claim: a run that fails after startup leaves no output file
  created or truncated, because the destination is opened only after generation and
  formatting have succeeded. The program opens the destination with
  \<open>O_CREATE|O_WRONLY|O_TRUNC\<close> before \<open>init\<close> runs. Here \<open>-type=Any\<close> names an empty
  interface: the run ends with \<open>EmptyContract\<close>, and the older \<open>foo_middleware.go\<close> has
  lost its content.
\<close>

theorem C1_counterexample:
  "snd (main (exConfig ''Any'') exEnv exWorld) = Some EmptyContract \<and>
   files exWorld ''foo_middleware.go'' = Some (''package foo'' @ NL) \<and>
   files (fst (main (exConfig ''Any'') exEnv exWorld)) ''foo_middleware.go'' = Some []"
  by (simp add: main_def exConfig_def exEnv_def exWorld_def outFileName_def os_OpenFile_def
      init_def exPackage_def exAny_def Empty_def)

text \<open>
  C1, amended: a run that fails after startup (in resolution, in generation or in the
  formatter) writes no generated text anywhere. Standard output is as it was. With \<open>-d\<close>
  the files are as they were; without it the destination file, and no other, has been
  created or truncated and is empty.
\<close>

theorem C1_failing_run_writes_no_text:
  assumes "main cfg ev w = (w', Some e)" and "afterStartup e"
  shows "stdout w' = stdout w \<and>
         files w' = (if debug cfg then files w else (files w)(outFileName cfg ev \<mapsto> []))"
proof -
  have "stdout (fst (main cfg ev w)) = stdout w \<and>
        files (fst (main cfg ev w)) =
          (if debug cfg then files w else (files w)(outFileName cfg ev \<mapsto> []))"
    using assms
    by (auto simp: main_def os_OpenFile_def Fprint_def Let_def fatal_def
        split: if_splits sum.splits option.splits formatted.splits writer.splits prod.splits)
  with assms(1) show ?thesis by simp
qed

theorem C1_failing_run_writes_no_text_witness:
  "afterStartup EmptyContract \<and>
   stdout (fst (main (exConfig ''Any'') exEnv exWorld)) = stdout exWorld \<and>
   files (fst (main (exConfig ''Any'') exEnv exWorld)) =
     (files exWorld)(''foo_middleware.go'' \<mapsto> [])"
proof -
  have run: "main (exConfig ''Any'') exEnv exWorld =
      (fst (main (exConfig ''Any'') exEnv exWorld), Some EmptyContract)"
    by (simp add: main_def exConfig_def exEnv_def exWorld_def outFileName_def os_OpenFile_def
      init_def exPackage_def exAny_def Empty_def fatal_def)
  have e: "afterStartup EmptyContract" by simp
  show ?thesis
    using C1_failing_run_writes_no_text [OF run e] e
    by (simp add: exConfig_def outFileName_def)
qed

subsection \<open>C2: one alias, one field and one body per method, in order\<close>

text \<open>
  C2, as stated, fails. The claim: in each of the three sections the methods come in the
  order in which the contract declares them. The generator walks \<open>Method(0), ...,
  Method(N - 1)\<close>, which \<open>go/types\<close> keeps sorted by method id. The interface \<open>Zoo\<close>
  declares \<open>Zed\<close>, \<open>Alpha\<close>, \<open>Mid\<close>; the aliases come out as \<open>Alpha\<close>, \<open>Mid\<close>, \<open>Zed\<close>.
\<close>

theorem C2_counterexample:
  "map fname exZooDeclared = [''Zed'', ''Alpha'', ''Mid''] \<and>
   target exZooGenerator = exZoo \<and>
   map_sum id handlerFuncTypes (generateWrapperCode (unicodeLower exEnv) exZooGenerator) =
     Inr (''type AlphaHandler func()'' @ NL @
          ''type MidHandler func()'' @ NL @
          ''type ZedHandler func()'' @ NL) \<and>
   map_sum id handlerFuncTypes (generateWrapperCode (unicodeLower exEnv) exZooGenerator) \<noteq>
     Inr (''type ZedHandler func()'' @ NL @
          ''type AlphaHandler func()'' @ NL @
          ''type MidHandler func()'' @ NL)"
proof -
  have ne: "targetName exZooGenerator \<noteq> []"
    by (simp add: exZooGenerator_def)
  have t: "methods (target exZooGenerator) =
     [Func ''Alpha'' (Signature [] [] False), Func ''Mid'' (Signature [] [] False),
      Func ''Zed'' (Signature [] [] False)]"
    using methods_exZoo by (simp add: exZooGenerator_def)
  show ?thesis
    by (simp add: generateWrapperCode_text [OF ne] t expectedAlias_def)
      (simp add: exZooGenerator_def exZooDeclared_def)
qed

text \<open>
  C2, amended: for a contract with \<open>N\<close> methods, the generated code has exactly \<open>N\<close>
  handler-type aliases, \<open>N\<close> override fields in the wrapper struct and \<open>N\<close> method bodies:
  the three buffers are the concatenation, over \<open>Method(0), ..., Method(N - 1)\<close>, of one
  alias line, of one field line (between the head of the struct and its closing brace)
  and of one method. The three sections share that order, which is the enumeration of
  \<open>go/types\<close>: the declared methods, each once, sorted by method id, whatever the order of
  their declaration.
\<close>

theorem C2_sections_in_enumeration_order:
  assumes "targetName g \<noteq> []"
  shows "(\<exists>g'. generateWrapperCode um g = Inr g' \<and>
     handlerFuncTypes g' =
       concat (map (\<lambda>fn. ''type '' @ fname fn @ ''Handler func'' @
                      types_WriteSignature (typeStringQuantifier g) (ftype fn) @ NL)
                 (methods (target g))) \<and>
     middlewareStruct g' =
       ''// '' @ targetName g @ ''Middleware implements '' @ targetName g @ NL @
       ''type '' @ targetName g @ ''Middleware struct {'' @ NL @
       TAB @ ''wrapped '' @ targetName g @ NL @
       NL @
       concat (map (\<lambda>fn. TAB @ fname fn @ ''Middleware func('' @ fname fn @ ''Handler) '' @
                      fname fn @ ''Handler'' @ NL)
                 (methods (target g))) @
       ''}'' @ NL \<and>
     interfaceMethods g' =
       concat (map (\<lambda>fn. expectedSignatureLine (targetFirstLetter g') (structName g')
                        (typeStringQuantifier g) fn @
                      expectedBody (targetFirstLetter g') fn)
                 (methods (target g))) \<and>
     length (methods (target g)) = NumMethods (target g)) \<and>
   methods (interfaceOf ux path declared restr) =
     sort_key (\<lambda>m. types_Id ux path (fname m)) declared \<and>
   sorted (map (\<lambda>m. types_Id ux path (fname m)) (methods (interfaceOf ux path declared restr))) \<and>
   (\<forall>m. count_list (methods (interfaceOf ux path declared restr)) m = count_list declared m)"
  using assms
  by (simp add: generateWrapperCode_text expectedStruct_def NumMethods_def
      expectedAlias_def [abs_def] expectedField_def [abs_def] expectedMethod_def [abs_def]
      interfaceOf_def sortMethods_def count_list_sort_key)

theorem C2_sections_in_enumeration_order_witness:
  "targetName exZooGenerator \<noteq> [] \<and>
   map fname exZooDeclared = [''Zed'', ''Alpha'', ''Mid''] \<and>
   (\<exists>g'. generateWrapperCode (\<lambda>s. s) exZooGenerator = Inr g' \<and>
      handlerFuncTypes g' =
        ''type AlphaHandler func()'' @ NL @
        ''type MidHandler func()'' @ NL @
        ''type ZedHandler func()'' @ NL \<and>
      middlewareStruct g' =
        ''// ZooMiddleware implements Zoo'' @ NL @
        ''type ZooMiddleware struct {'' @ NL @
        TAB @ ''wrapped Zoo'' @ NL @
        NL @
        TAB @ ''AlphaMiddleware func(AlphaHandler) AlphaHandler'' @ NL @
        TAB @ ''MidMiddleware func(MidHandler) MidHandler'' @ NL @
        TAB @ ''ZedMiddleware func(ZedHandler) ZedHandler'' @ NL @
        ''}'' @ NL)"
proof -
  have ne: "targetName exZooGenerator \<noteq> []"
    by (simp add: exZooGenerator_def)
  have t: "methods (target exZooGenerator) =
     [Func ''Alpha'' (Signature [] [] False), Func ''Mid'' (Signature [] [] False),
      Func ''Zed'' (Signature [] [] False)]"
    using methods_exZoo by (simp add: exZooGenerator_def)
  from C2_sections_in_enumeration_order [OF ne, of "\<lambda>s. s"]
  obtain g' where g': "generateWrapperCode (\<lambda>s. s) exZooGenerator = Inr g'"
    and h: "handlerFuncTypes g' =
       concat (map (\<lambda>fn. ''type '' @ fname fn @ ''Handler func'' @
                      types_WriteSignature (typeStringQuantifier exZooGenerator) (ftype fn) @ NL)
                 (methods (target exZooGenerator)))"
    and m: "middlewareStruct g' =
       ''// '' @ targetName exZooGenerator @ ''Middleware implements '' @
         targetName exZooGenerator @ NL @
       ''type '' @ targetName exZooGenerator @ ''Middleware struct {'' @ NL @
       TAB @ ''wrapped '' @ targetName exZooGenerator @ NL @
       NL @
       concat (map (\<lambda>fn. TAB @ fname fn @ ''Middleware func('' @ fname fn @ ''Handler) '' @
                      fname fn @ ''Handler'' @ NL)
                 (methods (target exZooGenerator))) @
       ''}'' @ NL"
    by blast
  have "handlerFuncTypes g' =
        ''type AlphaHandler func()'' @ NL @
        ''type MidHandler func()'' @ NL @
        ''type ZedHandler func()'' @ NL"
    unfolding h t by simp
  moreover have "middlewareStruct g' =
        ''// ZooMiddleware implements Zoo'' @ NL @
        ''type ZooMiddleware struct {'' @ NL @
        TAB @ ''wrapped Zoo'' @ NL @
        NL @
        TAB @ ''AlphaMiddleware func(AlphaHandler) AlphaHandler'' @ NL @
        TAB @ ''MidMiddleware func(MidHandler) MidHandler'' @ NL @
        TAB @ ''ZedMiddleware func(ZedHandler) ZedHandler'' @ NL @
        ''}'' @ NL"
    unfolding m t by (simp add: exZooGenerator_def)
  ultimately show ?thesis
    using ne g' by (simp add: exZooDeclared_def)
qed

subsection \<open>C3: the result type of a generated method\<close>

text \<open>
  C3: in the generated method, zero results give no return type, exactly one result gives
  its rendered type without parentheses, and two or more results give the rendered types
  joined by commas and wrapped in parentheses.
\<close>

theorem C3_result_type:
  "interfaceMethods (generateMiddlewareMethod g fn) =
     interfaceMethods g @
     ''func ('' @ targetFirstLetter g @ '' *'' @ structName g @ '') '' @ fname fn @
     ''('' @ expectedParameters (typeStringQuantifier g) (Params (ftype fn)) @ '')'' @
     (case Results (ftype fn) of
        [] \<Rightarrow> []
      | [r] \<Rightarrow> '' '' @ types_TypeString (typeStringQuantifier g) (vtype r)
      | r # r' # rs \<Rightarrow>
          '' ('' @
          strings_Join
            (map (\<lambda>r. types_TypeString (typeStringQuantifier g) (vtype r)) (r # r' # rs))
            '', '' @
          '')'') @
     '' {'' @ NL @
     expectedBody (targetFirstLetter g) fn"
  by (simp add: generateMiddlewareMethod_text expectedMethod_def expectedSignatureLine_def
      expectedResultType_def split: list.splits)

subsection \<open>C4: the body of a generated method\<close>

text \<open>
  C4: the body binds the handler \<open>fun\<close> to the method of the same name of the wrapped
  value; in one \<open>if\<close> on the override field being not \<open>nil\<close> it replaces the handler by
  the override applied, once, to that handler; it then calls the handler with the
  synthesized arguments \<open>a0, a1, ...\<close> in order, behind \<open>return\<close> exactly when the method
  has results. A method without parameters and results gets a body that calls \<open>fun()\<close>
  and has no \<open>return\<close>.
\<close>

theorem C4_method_body:
  "interfaceMethods (generateMiddlewareMethod g fn) =
     interfaceMethods g @
     expectedSignatureLine (targetFirstLetter g) (structName g) (typeStringQuantifier g) fn @
     TAB @ ''fun := '' @ targetFirstLetter g @ ''.wrapped.'' @ fname fn @ NL @
     TAB @ ''if '' @ targetFirstLetter g @ ''.'' @ fname fn @ ''Middleware != nil {'' @ NL @
     TAB @ TAB @ ''fun = '' @ targetFirstLetter g @ ''.'' @ fname fn @ ''Middleware(fun)'' @ NL @
     TAB @ ''}'' @ NL @
     TAB @ (if Results (ftype fn) = [] then ''fun('' else ''return fun('') @
       strings_Join (map (\<lambda>i. ''a'' @ dec_nat i) [0..<length (Params (ftype fn))]) '', '' @
       '')'' @ NL @
     ''}'' @ NL @
     NL \<and>
   interfaceMethods (generateMiddlewareMethod g (Func m (Signature [] [] variadic))) =
     interfaceMethods g @
     ''func ('' @ targetFirstLetter g @ '' *'' @ structName g @ '') '' @ m @ ''() {'' @ NL @
     TAB @ ''fun := '' @ targetFirstLetter g @ ''.wrapped.'' @ m @ NL @
     TAB @ ''if '' @ targetFirstLetter g @ ''.'' @ m @ ''Middleware != nil {'' @ NL @
     TAB @ TAB @ ''fun = '' @ targetFirstLetter g @ ''.'' @ m @ ''Middleware(fun)'' @ NL @
     TAB @ ''}'' @ NL @
     TAB @ ''fun()'' @ NL @
     ''}'' @ NL @
     NL"
  by (simp add: generateMiddlewareMethod_text expectedMethod_def expectedSignatureLine_def
      expectedBody_def expectedArguments_def expectedParameters_def expectedResultType_def
      syntheticName_def [abs_def])

subsection \<open>C5: qualification of type names\<close>

text \<open>
  C5: a named type of the package the generator runs in is written unqualified, a named
  type of another package is written with the name of that package and a dot before it,
  and this holds for every named type inside a composite type, at any depth: what
  \<open>go/types\<close> writes under the generator's qualifier is the qualified text of the type. It
  holds in parameter, result and handler-alias position alike: the method that
  \<open>generateInterfaceMethod\<close> adds has the qualified text of each parameter type and of
  each result type, and the alias it adds has the qualified text of the signature.
\<close>

theorem C5_qualification:
  "types_TypeString (typeStringQuantifier g) t =
     qualifiedText (qualifiedName (PkgPath (gp g))) t \<and>
   types_TypeString (typeStringQuantifier g) (Named (Some pk) n []) =
     (if pkg_Path pk = PkgPath (gp g) then n
      else if pkg_Name pk = [] then n
      else pkg_Name pk @ ''.'' @ n) \<and>
   types_TypeString (typeStringQuantifier g)
       (Map (Basic k) (Slice (Pointer (Named (Some pk) n [])))) =
     ''map['' @ k @ ''][]*'' @
     (if pkg_Path pk = PkgPath (gp g) then n
      else if pkg_Name pk = [] then n
      else pkg_Name pk @ ''.'' @ n) \<and>
   interfaceMethods (generateInterfaceMethod g fn) =
     interfaceMethods g @
     ''func ('' @ targetFirstLetter g @ '' *'' @ structName g @ '') '' @ fname fn @ ''('' @
     strings_Join
       (map (\<lambda>(i, param). ''a'' @ dec_nat i @ '' '' @
               qualifiedText (qualifiedName (PkgPath (gp g))) (vtype param))
          (enumerate 0 (Params (ftype fn)))) '', '' @
     '')'' @
     (case Results (ftype fn) of
        [] \<Rightarrow> []
      | [r] \<Rightarrow> '' '' @ qualifiedText (qualifiedName (PkgPath (gp g))) (vtype r)
      | r # r' # rs \<Rightarrow>
          '' ('' @
          strings_Join
            (map (\<lambda>r. qualifiedText (qualifiedName (PkgPath (gp g))) (vtype r))
               (r # r' # rs)) '', '' @
          '')'') @
     '' {'' @ NL @
     expectedBody (targetFirstLetter g) fn \<and>
   handlerFuncTypes (generateInterfaceMethod g fn) =
     handlerFuncTypes g @
     ''type '' @ fname fn @ ''Handler func'' @
     qualifiedSignature (qualifiedName (PkgPath (gp g))) (ftype fn) @ NL"
proof -
  note q = TypeString_qualifiedText [OF refl, of g]
  have direct: "types_TypeString (typeStringQuantifier g) (Named (Some pk) n []) =
     (if pkg_Path pk = PkgPath (gp g) then n
      else if pkg_Name pk = [] then n
      else pkg_Name pk @ ''.'' @ n)"
    by (simp add: packagePrefix_def typeStringQuantifier_def)
  have composite: "types_TypeString (typeStringQuantifier g)
       (Map (Basic k) (Slice (Pointer (Named (Some pk) n [])))) =
     ''map['' @ k @ ''][]*'' @
     (if pkg_Path pk = PkgPath (gp g) then n
      else if pkg_Name pk = [] then n
      else pkg_Name pk @ ''.'' @ n)"
    by (simp add: packagePrefix_def typeStringQuantifier_def)
  have body: "interfaceMethods (generateInterfaceMethod g fn) =
     interfaceMethods g @
     ''func ('' @ targetFirstLetter g @ '' *'' @ structName g @ '') '' @ fname fn @ ''('' @
     strings_Join
       (map (\<lambda>(i, param). ''a'' @ dec_nat i @ '' '' @
               qualifiedText (qualifiedName (PkgPath (gp g))) (vtype param))
          (enumerate 0 (Params (ftype fn)))) '', '' @
     '')'' @
     (case Results (ftype fn) of
        [] \<Rightarrow> []
      | [r] \<Rightarrow> '' '' @ qualifiedText (qualifiedName (PkgPath (gp g))) (vtype r)
      | r # r' # rs \<Rightarrow>
          '' ('' @
          strings_Join
            (map (\<lambda>r. qualifiedText (qualifiedName (PkgPath (gp g))) (vtype r))
               (r # r' # rs)) '', '' @
          '')'') @
     '' {'' @ NL @
     expectedBody (targetFirstLetter g) fn"
    by (simp add: generateInterfaceMethod_text expectedMethod_def expectedSignatureLine_def
        expectedParameters_def expectedResultType_def syntheticName_def [abs_def] q(1)
        split: list.splits)
  have sig: "handlerFuncTypes (generateInterfaceMethod g fn) =
     handlerFuncTypes g @
     ''type '' @ fname fn @ ''Handler func'' @
     qualifiedSignature (qualifiedName (PkgPath (gp g))) (ftype fn) @ NL"
    by (simp add: generateInterfaceMethod_text expectedAlias_def q(3))
  show ?thesis
    using q(1) [of t] direct composite body sig by (intro conjI)
qed

subsection \<open>C6: parameter names\<close>

text \<open>
  C6, as stated, fails. The claim: in every generated section, handler-type aliases
  included, parameters are named \<open>a0, a1, ...\<close> and the names of the source are discarded.
  The alias is written by \<open>types.WriteSignature\<close>, which keeps the names of the source:
  for \<open>Bar(b Baz) Quz\<close> the alias is \<open>type BarHandler func(b Baz) Quz\<close>.
\<close>

theorem C6_counterexample:
  "handlerFuncTypes (generateInterfaceMethod exGenerator exBar) =
     ''type BarHandler func(b Baz) Quz'' @ NL \<and>
   handlerFuncTypes (generateInterfaceMethod exGenerator exBar) \<noteq>
     ''type BarHandler func(a0 Baz) Quz'' @ NL"
  by (simp add: generateInterfaceMethod_text expectedAlias_def exGenerator_def exBar_def
      exPkg_def exPackage_def typeStringQuantifier_def packagePrefix_def)

text \<open>
  C6, amended: in the method bodies parameters are named by position, \<open>a0, a1, ...\<close>, in
  the parameter list and in the call, and the names that parameters and results have in
  the source do not reach the text of the method. The handler-type alias is the signature
  as \<open>types.WriteSignature\<close> writes it: a parameter or result that has a name in the
  source keeps it there.
\<close>

theorem C6_positional_in_method_bodies:
  "interfaceMethods (generateMiddlewareMethod g fn) =
     interfaceMethods g @
     ''func ('' @ targetFirstLetter g @ '' *'' @ structName g @ '') '' @ fname fn @ ''('' @
     strings_Join
       (map (\<lambda>(i, param). ''a'' @ dec_nat i @ '' '' @
               types_TypeString (typeStringQuantifier g) (vtype param))
          (enumerate 0 (Params (ftype fn)))) '', '' @
     '')'' @ expectedResultType (typeStringQuantifier g) (Results (ftype fn)) @ '' {'' @ NL @
     expectedBody (targetFirstLetter g) fn \<and>
   expectedArguments (length (Params (ftype fn))) =
     strings_Join (map (\<lambda>i. ''a'' @ dec_nat i) [0..<length (Params (ftype fn))]) '', '' \<and>
   generateMiddlewareMethod g fn =
     generateMiddlewareMethod g
       (Func (fname fn)
          (Signature (eraseNames (Params (ftype fn))) (eraseNames (Results (ftype fn)))
             (Variadic (ftype fn)))) \<and>
   handlerFuncTypes (generateInterfaceMethod g fn) =
     handlerFuncTypes g @
     ''type '' @ fname fn @ ''Handler func'' @
     types_WriteSignature (typeStringQuantifier g) (ftype fn) @ NL \<and>
   writeVar qf False (Var n t) = (if n \<noteq> [] then n @ '' '' else []) @ types_TypeString qf t"
proof (intro conjI)
  show "interfaceMethods (generateMiddlewareMethod g fn) =
     interfaceMethods g @
     ''func ('' @ targetFirstLetter g @ '' *'' @ structName g @ '') '' @ fname fn @ ''('' @
     strings_Join
       (map (\<lambda>(i, param). ''a'' @ dec_nat i @ '' '' @
               types_TypeString (typeStringQuantifier g) (vtype param))
          (enumerate 0 (Params (ftype fn)))) '', '' @
     '')'' @ expectedResultType (typeStringQuantifier g) (Results (ftype fn)) @ '' {'' @ NL @
     expectedBody (targetFirstLetter g) fn"
    by (simp add: generateMiddlewareMethod_text expectedMethod_def expectedSignatureLine_def
        expectedParameters_def syntheticName_def [abs_def])
  show "expectedArguments (length (Params (ftype fn))) =
     strings_Join (map (\<lambda>i. ''a'' @ dec_nat i) [0..<length (Params (ftype fn))]) '', ''"
    by (simp add: expectedArguments_def syntheticName_def [abs_def])
  show "generateMiddlewareMethod g fn =
     generateMiddlewareMethod g
       (Func (fname fn)
          (Signature (eraseNames (Params (ftype fn))) (eraseNames (Results (ftype fn)))
             (Variadic (ftype fn))))"
    using expectedMethod_eraseNames
      [of "targetFirstLetter g" "structName g" g "fname fn" "Params (ftype fn)"
        "Results (ftype fn)" "Variadic (ftype fn)"]
    by (cases fn) (simp add: generateMiddlewareMethod_text)
  show "handlerFuncTypes (generateInterfaceMethod g fn) =
     handlerFuncTypes g @
     ''type '' @ fname fn @ ''Handler func'' @
     types_WriteSignature (typeStringQuantifier g) (ftype fn) @ NL"
    by (simp add: generateInterfaceMethod_text expectedAlias_def)
  show "writeVar qf False (Var n t) =
     (if n \<noteq> [] then n @ '' '' else []) @ types_TypeString qf t"
    by simp
qed

subsection \<open>C7: the layout of the artifact\<close>

text \<open>
  C7: a successful run emits, in this order, the header comment with the command line,
  the package clause, a blank line, the constructor, a blank line, the wrapper type (the
  field \<open>wrapped\<close> and one override field per method), a blank line, one handler-type
  alias per method, a blank line, one method per method, and a blank line. That text is
  handed to the formatter, and what the formatter returns is what the run writes, to
  standard output with \<open>-d\<close> and to the destination file without.
\<close>

theorem C7_artifact_layout:
  assumes "main cfg ev w = (w', None)"
  shows "\<exists>g res. init (loaded ev) (typeName cfg) = Inr g \<and>
     goimports ev
       (''// Code generated by '' @ DQ @ ''middlewarer '' @ strings_Join (osArgs ev) '' '' @ DQ @
          ''; DO NOT EDIT.'' @ NL @
        ''package '' @ Name (gp g) @ NL @
        NL @
        expectedConstructor (typeName cfg) @
        NL @
        expectedStruct (typeName cfg) (methods (target g)) @
        NL @
        concat (map (expectedAlias (typeStringQuantifier g)) (methods (target g))) @
        NL @
        concat (map (expectedMethod (strings_ToLower (unicodeLower ev) (take 1 (typeName cfg)))
                       (typeName cfg @ ''Middleware'') (typeStringQuantifier g))
                  (methods (target g))) @
        NL) = Formatted res \<and>
     (if debug cfg then stdout w' = stdout w @ res \<and> files w' = files w
      else files w' = (files w)(outFileName cfg ev \<mapsto> res) \<and> stdout w' = stdout w)"
proof -
  from main_success [OF assms] obtain g g' res where
    ne: "typeName cfg \<noteq> []" and
    g: "init (loaded ev) (typeName cfg) = Inr g" and
    g': "generateWrapperCode (unicodeLower ev) g = Inr g'" and
    res: "goimports ev (print g' (osArgs ev)) = Formatted res" and
    w': "if debug cfg then stdout w' = stdout w @ res \<and> files w' = files w
         else files w' = (files w)(outFileName cfg ev \<mapsto> res) \<and> stdout w' = stdout w"
    by blast
  have name: "targetName g = typeName cfg"
    using g by (rule init_Inr)
  have "targetName g \<noteq> []"
    using ne name by simp
  from print_layout [OF this g', of "osArgs ev"] res w' g show ?thesis
    unfolding name by metis
qed

theorem C7_artifact_layout_witness:
  "snd (main (exConfig ''Foo'') exEnv exWorld) = None \<and>
   files (fst (main (exConfig ''Foo'') exEnv exWorld)) ''foo_middleware.go'' = Some exArtifact"
proof -
  have run: "main (exConfig ''Foo'') exEnv exWorld =
      (fst (main (exConfig ''Foo'') exEnv exWorld), None)"
    by (simp add: main_def exConfig_def exEnv_def exWorld_def outFileName_def os_OpenFile_def
      init_def exPackage_def exFoo_def Empty_def generateWrapperCode_text exBar_def Fprint_def)
  from C7_artifact_layout [OF run] obtain g res where
    g: "init (loaded exEnv) (typeName (exConfig ''Foo'')) = Inr g" and
    res: "goimports exEnv
       (''// Code generated by '' @ DQ @ ''middlewarer '' @ strings_Join (osArgs exEnv) '' '' @ DQ @
          ''; DO NOT EDIT.'' @ NL @
        ''package '' @ Name (gp g) @ NL @
        NL @
        expectedConstructor (typeName (exConfig ''Foo'')) @
        NL @
        expectedStruct (typeName (exConfig ''Foo'')) (methods (target g)) @
        NL @
        concat (map (expectedAlias (typeStringQuantifier g)) (methods (target g))) @
        NL @
        concat (map (expectedMethod
                       (strings_ToLower (unicodeLower exEnv) (take 1 (typeName (exConfig ''Foo''))))
                       (typeName (exConfig ''Foo'') @ ''Middleware'') (typeStringQuantifier g))
                  (methods (target g))) @
        NL) = Formatted res" and
    w': "files (fst (main (exConfig ''Foo'') exEnv exWorld)) =
           (files exWorld)(outFileName (exConfig ''Foo'') exEnv \<mapsto> res)"
    by (auto simp: exConfig_def)
  have g_eq: "g = exGenerator"
    using g
    by (simp add: init_def exConfig_def exEnv_def exPackage_def exFoo_def Empty_def
        exGenerator_def)
  have "res = exArtifact"
    using res unfolding g_eq
    by (simp add: exEnv_def exConfig_def exGenerator_def exPackage_def exFoo_def exBar_def
        exInit_def exServe_def exPkg_def httpPkg_def exArtifact_def expectedConstructor_def
        expectedStruct_def expectedField_def expectedAlias_def expectedMethod_def
        expectedSignatureLine_def expectedBody_def expectedParameters_def
        expectedArguments_def expectedResultType_def syntheticName_def dec_nat.simps
        digit_char_def typeStringQuantifier_def packagePrefix_def strings_ToLower_def
        isASCII_def lowerByte_def)
  moreover have "snd (main (exConfig ''Foo'') exEnv exWorld) = None"
    using run by (metis snd_conv)
  ultimately show ?thesis
    using w' by (simp add: exConfig_def outFileName_def)
qed

subsection \<open>C8: resolution\<close>

text \<open>
  C8, as stated, fails. The claim: \<open>init\<close> fails with \<open>EmptyContract\<close> when the interface
  declares zero methods. The test is \<open>iFace.Empty()\<close>, which holds of the empty interface
  only. The constraint interface \<open>Number\<close> has no method and is not empty: \<open>init\<close>
  succeeds on it.
\<close>

theorem C8_counterexample:
  "NumMethods exNumber = 0 \<and>
   init (loaded exEnv) ''Number'' =
     Inr \<lparr>gp = exPackage, target = exNumber, targetName = ''Number'', targetFirstLetter = [],
          structName = [], wrapFunction = [], middlewareStruct = [], handlerFuncTypes = [],
          interfaceMethods = []\<rparr>"
  by (simp add: NumMethods_def exNumber_def init_def exEnv_def exPackage_def Empty_def)

text \<open>
  C8, amended: \<open>init\<close> fails when the load fails; else when the load yields zero or more
  than one package (\<open>AmbiguousUnit\<close>); else when the name is not in the scope of the
  package (\<open>NotFound\<close>); else when the object is not an interface (\<open>NotAContract\<close>); else
  when the interface is the empty interface, with no method and an unrestricted type set
  (\<open>EmptyContract\<close>); the conditions are tested in that order, and otherwise \<open>init\<close>
  returns the package and the interface found. The diagnostics of the failures differ
  from each other whatever their arguments, and each exits with status 1.
\<close>

theorem C8_resolution_order:
  "init loadResult tgt =
     (case loadResult of
        Inl err \<Rightarrow> Inl (LoadError err)
      | Inr packs \<Rightarrow>
          (case packs of
             [pk] \<Rightarrow>
               (case Scope pk tgt of
                  None \<Rightarrow> Inl (NotFound tgt)
                | Some UOther \<Rightarrow> Inl (NotAContract tgt)
                | Some (UInterface iFace) \<Rightarrow>
                    if methods iFace = [] \<and> \<not> restricted iFace then Inl EmptyContract
                    else Inr \<lparr>gp = pk, target = iFace, targetName = tgt,
                              targetFirstLetter = [], structName = [], wrapFunction = [],
                              middlewareStruct = [], handlerFuncTypes = [],
                              interfaceMethods = []\<rparr>)
           | _ \<Rightarrow> Inl (AmbiguousUnit (length packs)))) \<and>
   distinct [diagnostic (LoadError err), diagnostic (AmbiguousUnit n), diagnostic (NotFound a),
             diagnostic (NotAContract b), diagnostic EmptyContract] \<and>
   map exitStatus [LoadError err, AmbiguousUnit n, NotFound a, NotAContract b, EmptyContract] =
     [1, 1, 1, 1, 1]"
proof -
  have "init loadResult tgt =
     (case loadResult of
        Inl err \<Rightarrow> Inl (LoadError err)
      | Inr packs \<Rightarrow>
          (case packs of
             [pk] \<Rightarrow>
               (case Scope pk tgt of
                  None \<Rightarrow> Inl (NotFound tgt)
                | Some UOther \<Rightarrow> Inl (NotAContract tgt)
                | Some (UInterface iFace) \<Rightarrow>
                    if methods iFace = [] \<and> \<not> restricted iFace then Inl EmptyContract
                    else Inr \<lparr>gp = pk, target = iFace, targetName = tgt,
                              targetFirstLetter = [], structName = [], wrapFunction = [],
                              middlewareStruct = [], handlerFuncTypes = [],
                              interfaceMethods = []\<rparr>)
           | _ \<Rightarrow> Inl (AmbiguousUnit (length packs))))"
    by (simp add: init_def Empty_def split: sum.splits list.splits option.splits
        underlying.splits)
  moreover have "distinct [diagnostic (LoadError err), diagnostic (AmbiguousUnit n),
      diagnostic (NotFound a), diagnostic (NotAContract b), diagnostic EmptyContract]"
    unfolding diagnostic_text by simp
  ultimately show ?thesis
    by simp
qed

subsection \<open>C9: a missing type name\<close>

text \<open>
  C9: a run without a type name reports a \<open>ConfigError\<close> with the usage text before any
  resolution. The \<open>main\<close> of \<open>main.go\<close> does so (\<open>main_missing_type\<close>). The \<open>main\<close> of
  \<open>part_000\<close> does not: its guard tests the pointer, which is never \<open>nil\<close>, so the run
  goes on to \<open>init\<close> with the empty name and never ends in \<open>ConfigError\<close>; in the package
  \<open>foo\<close> it ends in \<open>NotFound\<close>.
\<close>

theorem C9_part000_guard_never_fires:
  "main_part000 [] loadResult = init_part000 loadResult [] \<and>
   main_part000 [] loadResult \<noteq> Inl ConfigError \<and>
   main_part000 [] (Inr [exPackage]) = Inl (NotFound [])"
  by (simp add: main_part000_def flag_String_def init_part000_def exPackage_def
      split: sum.splits option.splits underlying.splits)

subsection \<open>C10: the receiver\<close>

text \<open>
  C10: with a name of at least one byte the slice expression does not fault
  (\<open>generateWrapperCode_receiver\<close>), and the receiver is the first letter of the name in
  lower case when that letter is one ASCII byte (\<open>receiver_ASCII\<close>). The slice takes one
  byte, not one letter. Two interface names whose first letters are \<open>A\<close> with a
  diaeresis and \<open>A\<close> with a tilde start with the bytes \<open>C3 84\<close> and \<open>C3 83\<close> in
  UTF-8: for both the receiver is what \<open>strings.ToLower\<close> makes of the lone byte
  \<open>C3\<close>, so it is the lower-case first letter (bytes \<open>C3 A4\<close> and \<open>C3 A3\<close>) of at
  most one of them, whatever the Unicode path of \<open>strings.ToLower\<close> does.
\<close>

theorem C10_receiver_from_first_byte:
  "map_sum id targetFirstLetter
     (generateWrapperCode um (exGenerator\<lparr>targetName := CHR 0xC3 # CHR 0x84 # ''rger''\<rparr>)) =
     Inr (um [CHR 0xC3]) \<and>
   map_sum id targetFirstLetter
     (generateWrapperCode um (exGenerator\<lparr>targetName := CHR 0xC3 # CHR 0x83 # ''rger''\<rparr>)) =
     Inr (um [CHR 0xC3]) \<and>
   \<not> (map_sum id targetFirstLetter
         (generateWrapperCode um (exGenerator\<lparr>targetName := CHR 0xC3 # CHR 0x84 # ''rger''\<rparr>)) =
         Inr [CHR 0xC3, CHR 0xA4] \<and>
       map_sum id targetFirstLetter
         (generateWrapperCode um (exGenerator\<lparr>targetName := CHR 0xC3 # CHR 0x83 # ''rger''\<rparr>)) =
         Inr [CHR 0xC3, CHR 0xA3])"
  by (auto simp: generateWrapperCode_text strings_ToLower_def isASCII_def)

end
